theory Spec2Isabelle
  imports Main
begin

section \<open>Entitlements generation hook (hooks/lib/ios/projectEntitlements.js)\<close>

text \<open>
  The module reads the two entitlements property lists of an iOS project (debug and
  release), sets the associated-domains key of each to the list of hosts of the plugin
  preferences, and writes both back. This theory embeds every function of the module.
  The libraries it calls (\<open>fs\<close>, \<open>path\<close>, \<open>plist\<close>, \<open>mkpath\<close> and the
  project's \<open>ConfigXmlHelper\<close>) are not part of the module: they are parameters of the
  embedding, collected in the record \<open>externals\<close>, and every theorem holds for all of
  them, under the assumptions it states.
\<close>

subsection \<open>Data\<close>

type_synonym path = string

text \<open>
  A JavaScript exception is a value of type \<open>error\<close>; a call that may throw returns
  \<open>error + 'a\<close>, with \<open>Inl\<close> for the exception.
\<close>

datatype error = FsError string | PlistError string | ConfigError string | TypeError string

text \<open>
  Property-list values. An entitlements document is a JavaScript object: its own
  properties in insertion order, as a list of key-value pairs.
\<close>

datatype plist_value =
    PString string
  | PInteger int
  | PBoolean bool
  | PArray "plist_value list"
  | PDict "(string \<times> plist_value) list"

type_synonym entitlements = "(string \<times> plist_value) list"

text \<open>A host entry of the plugin preferences (\<open>host.name\<close>), and the preferences.\<close>

record host =
  name :: string

record plugin_preferences =
  hosts :: "host list"

text \<open>The cordova context: the module reads \<open>context.opts.projectRoot\<close>.\<close>

record cordova_opts =
  projectRoot :: string

record cordova_context =
  opts :: cordova_opts

definition ASSOCIATED_DOMAINS :: string where
  "ASSOCIATED_DOMAINS = ''com.apple.developer.associated-domains''"

subsection \<open>JavaScript primitives the module uses\<close>

text \<open>
  \<open>obj[key] = v\<close> on an object: an existing property keeps its place and gets the new
  value, a new property is added last.
\<close>

fun set_property :: "string \<Rightarrow> 'v \<Rightarrow> (string \<times> 'v) list \<Rightarrow> (string \<times> 'v) list" where
  "set_property k v [] = [(k, v)]"
| "set_property k v ((k', v') # kvs) =
     (if k' = k then (k, v) # kvs else (k', v') # set_property k v kvs)"

text \<open>\<open>Array.prototype.indexOf\<close>: the first index of an equal element, or \<open>-1\<close>.\<close>

fun indexOf :: "'a list \<Rightarrow> 'a \<Rightarrow> int" where
  "indexOf [] x = -1"
| "indexOf (y # ys) x =
     (if y = x then 0 else (let i = indexOf ys x in if i = -1 then -1 else i + 1))"

subsection \<open>The pure part of the module\<close>

text \<open>\<open>domainsListEntryForHost\<close>: \<open>return 'applinks:' + host.name\<close>.\<close>

definition domainsListEntryForHost :: "host \<Rightarrow> string" where
  "domainsListEntryForHost h = ''applinks:'' @ name h"

text \<open>
  The body of \<open>pluginPreferences.hosts.forEach\<close> in \<open>generateAssociatedDomainsContent\<close>,
  with the array \<open>domainsList\<close> it pushes to as an accumulator.
\<close>

fun forEach_host :: "host list \<Rightarrow> string list \<Rightarrow> string list" where
  "forEach_host [] domainsList = domainsList"
| "forEach_host (h # rest) domainsList =
     (let link = domainsListEntryForHost h in
      forEach_host rest
        (if indexOf domainsList link = -1 then domainsList @ [link] else domainsList))"

definition generateAssociatedDomainsContent :: "plugin_preferences \<Rightarrow> string list" where
  "generateAssociatedDomainsContent pluginPreferences = forEach_host (hosts pluginPreferences) []"

text \<open>\<open>defaultEntitlementsFile\<close>: \<open>return {}\<close>, a fresh empty object at every call.\<close>

definition defaultEntitlementsFile :: entitlements where
  "defaultEntitlementsFile = []"

text \<open>
  \<open>injectPreferences\<close> assigns the generated array to the associated-domains property of
  the object it is given and returns that object. The source mutates its argument; the
  two documents of one run are distinct objects and neither is read again through its
  old name, so the model returns the updated document.
\<close>

definition injectPreferences :: "entitlements \<Rightarrow> plugin_preferences \<Rightarrow> entitlements" where
  "injectPreferences currentEntitlements pluginPreferences =
     set_property ASSOCIATED_DOMAINS
       (PArray (map PString (generateAssociatedDomainsContent pluginPreferences)))
       currentEntitlements"

subsection \<open>The libraries, as parameters\<close>

text \<open>
  The world \<open>'w\<close> is everything outside the process (the file system). A library call
  that reads it takes the world; one that changes it returns the world it leaves, with
  the exception it threw, if any.
  \<^item> \<open>fs_readFileSync p w\<close> is \<open>fs.readFileSync(p, 'utf8')\<close>;
  \<^item> \<open>fs_writeFileSync p c w\<close> is \<open>fs.writeFileSync(p, c, 'utf8')\<close>;
  \<^item> \<open>mkpath_sync d w\<close> is \<open>mkpath.sync(d)\<close>;
  \<^item> \<open>path_join\<close> and \<open>path_dirname\<close> are \<open>path.join\<close> and \<open>path.dirname\<close>;
  \<^item> \<open>plist_parse\<close> and \<open>plist_build\<close> are \<open>plist.parse\<close> and \<open>plist.build\<close>;
  \<^item> \<open>configXmlHelper_getProjectName c w\<close> is \<open>new ConfigXmlHelper(c).getProjectName()\<close>,
    where \<open>c\<close> is the value of the module's variable \<open>context\<close> (\<open>None\<close> for
    \<open>undefined\<close>).
\<close>

record 'w externals =
  fs_readFileSync :: "path \<Rightarrow> 'w \<Rightarrow> error + string"
  fs_writeFileSync :: "path \<Rightarrow> string \<Rightarrow> 'w \<Rightarrow> error option \<times> 'w"
  mkpath_sync :: "path \<Rightarrow> 'w \<Rightarrow> error option \<times> 'w"
  path_join :: "string list \<Rightarrow> path"
  path_dirname :: "path \<Rightarrow> path"
  plist_parse :: "string \<Rightarrow> error + entitlements"
  plist_build :: "entitlements \<Rightarrow> error + string"
  configXmlHelper_getProjectName :: "cordova_context option \<Rightarrow> 'w \<Rightarrow> error + string"

subsection \<open>The module's variables and the world\<close>

text \<open>
  The state a call of the module works on: the five variables declared at the top of the
  module (\<open>None\<close> for \<open>undefined\<close>; \<open>projectRoot\<close> is declared and never assigned) and
  the world.
\<close>

record 'w state =
  var_context :: "cordova_context option"
  var_projectRoot :: "string option"
  var_projectName :: "string option"
  var_debugEntitlementsFilePath :: "path option"
  var_releaseEntitlementsFilePath :: "path option"
  world :: 'w

text \<open>The state when the module has just been loaded, in the world \<open>w\<close>.\<close>

definition module_loaded :: "'w \<Rightarrow> 'w state" where
  "module_loaded w =
     \<lparr>var_context = None, var_projectRoot = None, var_projectName = None,
      var_debugEntitlementsFilePath = None, var_releaseEntitlementsFilePath = None,
      world = w\<rparr>"

subsection \<open>Path helper methods\<close>

text \<open>\<open>getProjectRoot\<close>: \<open>return context.opts.projectRoot\<close>; it reads the state only.\<close>

definition getProjectRoot :: "'w state \<Rightarrow> error + string" where
  "getProjectRoot s =
     (case var_context s of
        None \<Rightarrow> Inl (TypeError ''Cannot read property opts of undefined'')
      | Some c \<Rightarrow> Inr (projectRoot (opts c)))"

text \<open>\<open>getProjectName\<close>: the name is asked of \<open>ConfigXmlHelper\<close> once and kept.\<close>

definition getProjectName :: "'w externals \<Rightarrow> 'w state \<Rightarrow> (error + string) \<times> 'w state" where
  "getProjectName E s =
     (case var_projectName s of
        Some n \<Rightarrow> (Inr n, s)
      | None \<Rightarrow>
         (case configXmlHelper_getProjectName E (var_context s) (world s) of
            Inl e \<Rightarrow> (Inl e, s)
          | Inr n \<Rightarrow> (Inr n, s\<lparr>var_projectName := Some n\<rparr>)))"

text \<open>
  \<open>pathToDebugEntitlementsFile\<close> and \<open>pathToReleaseEntitlementsFile\<close>: the path is
  computed when the variable is \<open>undefined\<close>, stored, and returned from the variable
  afterwards. The arguments of \<open>path.join\<close> are evaluated from left to right.
\<close>

definition pathToDebugEntitlementsFile ::
  "'w externals \<Rightarrow> 'w state \<Rightarrow> (error + path) \<times> 'w state" where
  "pathToDebugEntitlementsFile E s =
     (case var_debugEntitlementsFilePath s of
        Some p \<Rightarrow> (Inr p, s)
      | None \<Rightarrow>
         (case getProjectRoot s of
            Inl e \<Rightarrow> (Inl e, s)
          | Inr root \<Rightarrow>
             (case getProjectName E s of
                (Inl e, s1) \<Rightarrow> (Inl e, s1)
              | (Inr n, s1) \<Rightarrow>
                 (let p = path_join E [root, ''platforms'', ''ios'', n, ''Entitlements-Debug.plist'']
                  in (Inr p, s1\<lparr>var_debugEntitlementsFilePath := Some p\<rparr>)))))"

definition pathToReleaseEntitlementsFile ::
  "'w externals \<Rightarrow> 'w state \<Rightarrow> (error + path) \<times> 'w state" where
  "pathToReleaseEntitlementsFile E s =
     (case var_releaseEntitlementsFilePath s of
        Some p \<Rightarrow> (Inr p, s)
      | None \<Rightarrow>
         (case getProjectRoot s of
            Inl e \<Rightarrow> (Inl e, s)
          | Inr root \<Rightarrow>
             (case getProjectName E s of
                (Inl e, s1) \<Rightarrow> (Inl e, s1)
              | (Inr n, s1) \<Rightarrow>
                 (let p = path_join E [root, ''platforms'', ''ios'', n, ''Entitlements-Release.plist'']
                  in (Inr p, s1\<lparr>var_releaseEntitlementsFilePath := Some p\<rparr>)))))"

subsection \<open>Work with the entitlements files\<close>

text \<open>
  \<open>getDebugEntitlementsFileContent\<close> and \<open>getReleaseEntitlementsFileContent\<close>: the
  \<open>try\<close> block holds the call of \<open>fs.readFileSync\<close> only, and its \<open>catch\<close> returns
  the default document. \<open>plist.parse(content)\<close> is called after the block, so what it
  throws is thrown by the function.
\<close>

definition getDebugEntitlementsFileContent ::
  "'w externals \<Rightarrow> 'w state \<Rightarrow> (error + entitlements) \<times> 'w state" where
  "getDebugEntitlementsFileContent E s =
     (case pathToDebugEntitlementsFile E s of
        (Inl e, s1) \<Rightarrow> (Inl e, s1)
      | (Inr pathToFile, s1) \<Rightarrow>
         (case fs_readFileSync E pathToFile (world s1) of
            Inl err \<Rightarrow> (Inr defaultEntitlementsFile, s1)
          | Inr content \<Rightarrow> (plist_parse E content, s1)))"

definition getReleaseEntitlementsFileContent ::
  "'w externals \<Rightarrow> 'w state \<Rightarrow> (error + entitlements) \<times> 'w state" where
  "getReleaseEntitlementsFileContent E s =
     (case pathToReleaseEntitlementsFile E s of
        (Inl e, s1) \<Rightarrow> (Inl e, s1)
      | (Inr pathToFile, s1) \<Rightarrow>
         (case fs_readFileSync E pathToFile (world s1) of
            Inl err \<Rightarrow> (Inr defaultEntitlementsFile, s1)
          | Inr content \<Rightarrow> (plist_parse E content, s1)))"

text \<open>
  \<open>saveContentToEntitlementsFile\<close>: both documents are built, both paths looked up, both
  directories made, then both files written, in this order and with no \<open>try\<close>: the first
  exception ends the function, in the world the failed call left.
\<close>

definition saveContentToEntitlementsFile ::
  "'w externals \<Rightarrow> entitlements \<Rightarrow> entitlements \<Rightarrow> 'w state \<Rightarrow> (error + unit) \<times> 'w state" where
  "saveContentToEntitlementsFile E debugContent releaseContent s =
     (case plist_build E debugContent of
        Inl e \<Rightarrow> (Inl e, s)
      | Inr debugPlistContent \<Rightarrow>
     (case plist_build E releaseContent of
        Inl e \<Rightarrow> (Inl e, s)
      | Inr releasePlistContent \<Rightarrow>
     (case pathToDebugEntitlementsFile E s of
        (Inl e, s1) \<Rightarrow> (Inl e, s1)
      | (Inr debugFilePath, s1) \<Rightarrow>
     (case pathToReleaseEntitlementsFile E s1 of
        (Inl e, s2) \<Rightarrow> (Inl e, s2)
      | (Inr releaseFilePath, s2) \<Rightarrow>
     (case mkpath_sync E (path_dirname E debugFilePath) (world s2) of
        (Some e, w1) \<Rightarrow> (Inl e, s2\<lparr>world := w1\<rparr>)
      | (None, w1) \<Rightarrow>
     (case mkpath_sync E (path_dirname E releaseFilePath) w1 of
        (Some e, w2) \<Rightarrow> (Inl e, s2\<lparr>world := w2\<rparr>)
      | (None, w2) \<Rightarrow>
     (case fs_writeFileSync E debugFilePath debugPlistContent w2 of
        (Some e, w3) \<Rightarrow> (Inl e, s2\<lparr>world := w3\<rparr>)
      | (None, w3) \<Rightarrow>
     (case fs_writeFileSync E releaseFilePath releasePlistContent w3 of
        (Some e, w4) \<Rightarrow> (Inl e, s2\<lparr>world := w4\<rparr>)
      | (None, w4) \<Rightarrow> (Inr (), s2\<lparr>world := w4\<rparr>)))))))))"

subsection \<open>Public API\<close>

text \<open>\<open>generateEntitlements\<close>, exported as \<open>generateAssociatedDomainsEntitlements\<close>.\<close>

definition generateEntitlements ::
  "'w externals \<Rightarrow> cordova_context \<Rightarrow> plugin_preferences \<Rightarrow> 'w state \<Rightarrow> (error + unit) \<times> 'w state" where
  "generateEntitlements E cordovaContext pluginPreferences s =
     (let s0 = s\<lparr>var_context := Some cordovaContext\<rparr> in
      case getDebugEntitlementsFileContent E s0 of
        (Inl e, s1) \<Rightarrow> (Inl e, s1)
      | (Inr currentDebugEntitlements, s1) \<Rightarrow>
     (case getReleaseEntitlementsFileContent E s1 of
        (Inl e, s2) \<Rightarrow> (Inl e, s2)
      | (Inr currentReleaseEntitlements, s2) \<Rightarrow>
         (let newDebugEntitlements = injectPreferences currentDebugEntitlements pluginPreferences;
              newReleaseEntitlements = injectPreferences currentReleaseEntitlements pluginPreferences
          in saveContentToEntitlementsFile E newDebugEntitlements newReleaseEntitlements s2)))"

subsection \<open>What the theorems assume of the libraries\<close>

text \<open>The text a later \<open>fs.readFileSync\<close> of \<open>p\<close> returns, \<open>None\<close> when it throws.\<close>

definition file_content :: "'w externals \<Rightarrow> 'w \<Rightarrow> path \<Rightarrow> string option" where
  "file_content E w p = (case fs_readFileSync E p w of Inl e \<Rightarrow> None | Inr c \<Rightarrow> Some c)"

text \<open>
  The file system stores what is written: after a write that returns, the file reads
  back as written and every file under another path reads as before; making a directory
  changes what no file reads as. Two different paths are taken to name two different
  files.
\<close>

definition fs_stores :: "'w externals \<Rightarrow> bool" where
  "fs_stores E \<longleftrightarrow>
     (\<forall>p c w w'. fs_writeFileSync E p c w = (None, w') \<longrightarrow>
        file_content E w' p = Some c \<and> (\<forall>q. q \<noteq> p \<longrightarrow> file_content E w' q = file_content E w q))
   \<and> (\<forall>d w w' q. mkpath_sync E d w = (None, w') \<longrightarrow> file_content E w' q = file_content E w q)"

text \<open>Making a directory and writing a file never throw.\<close>

definition fs_reliable :: "'w externals \<Rightarrow> bool" where
  "fs_reliable E \<longleftrightarrow>
     (\<forall>p c w. fst (fs_writeFileSync E p c w) = None) \<and> (\<forall>d w. fst (mkpath_sync E d w) = None)"

text \<open>The property list library parses what it built back to the document built.\<close>

definition plist_roundtrip :: "'w externals \<Rightarrow> bool" where
  "plist_roundtrip E \<longleftrightarrow> (\<forall>d c. plist_build E d = Inr c \<longrightarrow> plist_parse E c = Inr d)"

text \<open>
  The same for one text: the library parses \<open>t\<close> back to every document it builds
  \<open>t\<close> from.
\<close>

definition parses_back :: "'w externals \<Rightarrow> string \<Rightarrow> bool" where
  "parses_back E t \<longleftrightarrow> (\<forall>d. plist_build E d = Inr t \<longrightarrow> plist_parse E t = Inr d)"

subsection \<open>The specification's associated-domains list\<close>

text \<open>
  The list of the specification: the entries in the order of the input, each kept at its
  first occurrence only.
\<close>

fun first_occurrences :: "'a list \<Rightarrow> 'a list" where
  "first_occurrences [] = []"
| "first_occurrences (x # xs) = x # first_occurrences (filter (\<lambda>y. y \<noteq> x) xs)"

definition spec_domains :: "host list \<Rightarrow> string list" where
  "spec_domains H = first_occurrences (map (\<lambda>h. ''applinks:'' @ name h) H)"

subsection \<open>Descriptions of the steps of a run, used in the proofs\<close>

text \<open>
  These three functions are not functions of the module. They name what the module does
  between its path lookups, and the lemmas \<open>getDebug_read_document\<close>,
  \<open>getRelease_read_document\<close>, \<open>save_write_files\<close> and \<open>generate_resolved\<close> below prove
  that the module's functions compute them. \<open>read_document\<close> is the common body of the
  two reading functions after the path lookup, \<open>write_files\<close> the four file system
  calls of \<open>saveContentToEntitlementsFile\<close>, and \<open>run_on\<close> a whole run on two given
  paths.
\<close>

definition read_document :: "'w externals \<Rightarrow> path \<Rightarrow> 'w \<Rightarrow> error + entitlements" where
  "read_document E p w =
     (case fs_readFileSync E p w of
        Inl err \<Rightarrow> Inr defaultEntitlementsFile
      | Inr content \<Rightarrow> plist_parse E content)"

definition write_files ::
  "'w externals \<Rightarrow> path \<Rightarrow> string \<Rightarrow> path \<Rightarrow> string \<Rightarrow> 'w \<Rightarrow> error option \<times> 'w" where
  "write_files E pd td pr tr w =
     (case mkpath_sync E (path_dirname E pd) w of
        (Some e, w1) \<Rightarrow> (Some e, w1)
      | (None, w1) \<Rightarrow>
     (case mkpath_sync E (path_dirname E pr) w1 of
        (Some e, w2) \<Rightarrow> (Some e, w2)
      | (None, w2) \<Rightarrow>
     (case fs_writeFileSync E pd td w2 of
        (Some e, w3) \<Rightarrow> (Some e, w3)
      | (None, w3) \<Rightarrow> fs_writeFileSync E pr tr w3)))"

definition run_on ::
  "'w externals \<Rightarrow> plugin_preferences \<Rightarrow> path \<Rightarrow> path \<Rightarrow> 'w \<Rightarrow> error option \<times> 'w" where
  "run_on E P pd pr w =
     (case read_document E pd w of
        Inl e \<Rightarrow> (Some e, w)
      | Inr d1 \<Rightarrow>
     (case read_document E pr w of
        Inl e \<Rightarrow> (Some e, w)
      | Inr d2 \<Rightarrow>
     (case plist_build E (injectPreferences d1 P) of
        Inl e \<Rightarrow> (Some e, w)
      | Inr t1 \<Rightarrow>
     (case plist_build E (injectPreferences d2 P) of
        Inl e \<Rightarrow> (Some e, w)
      | Inr t2 \<Rightarrow> write_files E pd t1 pr t2 w))))"

definition outcome :: "error option \<Rightarrow> error + unit" where
  "outcome r = (case r of None \<Rightarrow> Inr () | Some e \<Rightarrow> Inl e)"

subsection \<open>An instance of the libraries, for the examples\<close>

text \<open>
  A file system held as a list of paths with their text, in which the paths of
  \<open>denied\<close> can be neither made nor written, and a property list library that knows the
  documents of \<open>table\<close>, each with its text. The project name is the text of
  \<open>config.xml\<close> under the project root.
\<close>

type_synonym example_world = "(path \<times> string) list"

definition example_externals ::
  "path list \<Rightarrow> (entitlements \<times> string) list \<Rightarrow> example_world externals" where
  "example_externals denied table =
     \<lparr>fs_readFileSync = (\<lambda>p w. case map_of w p of
          None \<Rightarrow> Inl (FsError ''ENOENT'') | Some c \<Rightarrow> Inr c),
      fs_writeFileSync = (\<lambda>p c w.
          if p \<in> set denied then (Some (FsError ''EACCES''), w) else (None, set_property p c w)),
      mkpath_sync = (\<lambda>d w.
          if d \<in> set denied then (Some (FsError ''EACCES''), w) else (None, w)),
      path_join = (\<lambda>parts. foldr (\<lambda>a b. if b = [] then a else a @ ''/'' @ b) parts []),
      path_dirname = (\<lambda>p. rev (drop 1 (dropWhile (\<lambda>c. c \<noteq> CHR ''/'') (rev p)))),
      plist_parse = (\<lambda>c. case map_of (map (\<lambda>(d, t). (t, d)) table) c of
          None \<Rightarrow> Inl (PlistError ''malformed document'') | Some d \<Rightarrow> Inr d),
      plist_build = (\<lambda>d. case map_of table d of
          None \<Rightarrow> Inl (PlistError ''unsupported document'') | Some t \<Rightarrow> Inr t),
      configXmlHelper_getProjectName = (\<lambda>c w. case c of
          None \<Rightarrow> Inl (TypeError ''Cannot read property opts of undefined'')
        | Some cx \<Rightarrow>
           (case map_of w (projectRoot (opts cx) @ ''/config.xml'') of
              None \<Rightarrow> Inl (ConfigError ''config.xml not found'') | Some n \<Rightarrow> Inr n))\<rparr>"

text \<open>The documents and texts of the examples.\<close>

definition example_domains :: plist_value where
  "example_domains = PArray [PString ''applinks:example.com'']"

definition other_text :: string where
  "other_text = ''<dict><key>other-key</key><string>value</string></dict>''"

definition domains_text :: string where
  "domains_text = ''<dict><key>associated-domains</key><array>applinks:example.com</array></dict>''"

definition other_domains_text :: string where
  "other_domains_text =
     ''<dict><key>other-key</key><string>value</string><key>associated-domains</key><array>applinks:example.com</array></dict>''"

definition example_table :: "(entitlements \<times> string) list" where
  "example_table =
     [([(''other-key'', PString ''value'')], other_text),
      ([(ASSOCIATED_DOMAINS, example_domains)], domains_text),
      ([(''other-key'', PString ''value''), (ASSOCIATED_DOMAINS, example_domains)],
       other_domains_text)]"

definition example_preferences :: plugin_preferences where
  "example_preferences = \<lparr>hosts = [\<lparr>name = ''example.com''\<rparr>, \<lparr>name = ''example.com''\<rparr>]\<rparr>"

definition example_context :: cordova_context where
  "example_context = \<lparr>opts = \<lparr>projectRoot = ''/app''\<rparr>\<rparr>"

definition other_context :: cordova_context where
  "other_context = \<lparr>opts = \<lparr>projectRoot = ''/other''\<rparr>\<rparr>"

definition debug_path :: path where
  "debug_path = ''/app/platforms/ios/Demo/Entitlements-Debug.plist''"

definition release_path :: path where
  "release_path = ''/app/platforms/ios/Demo/Entitlements-Release.plist''"

text \<open>
  A world with the \<open>config.xml\<close> of two projects and no entitlements file, and the states
  of the module in a world \<open>w\<close> once the debug path, and once both paths, have been
  computed for \<open>example_context\<close>.
\<close>

definition initial_world :: example_world where
  "initial_world = [(''/app/config.xml'', ''Demo''), (''/other/config.xml'', ''Other'')]"

definition debug_resolved :: "example_world \<Rightarrow> example_world state" where
  "debug_resolved w =
     \<lparr>var_context = Some example_context, var_projectRoot = None, var_projectName = Some ''Demo'',
      var_debugEntitlementsFilePath = Some debug_path, var_releaseEntitlementsFilePath = None,
      world = w\<rparr>"

definition both_resolved :: "cordova_context \<Rightarrow> example_world \<Rightarrow> example_world state" where
  "both_resolved c w =
     \<lparr>var_context = Some c, var_projectRoot = None, var_projectName = Some ''Demo'',
      var_debugEntitlementsFilePath = Some debug_path,
      var_releaseEntitlementsFilePath = Some release_path, world = w\<rparr>"

text \<open>
  A property list library that does not parse back all it builds, over the same file
  system. It writes a number with the number's \<open>toString\<close>, so \<open>10^21\<close> becomes the
  integer element \<open>1e+21\<close>, and it reads an integer element as \<open>parseInt\<close> does, up to
  the first character that is no digit, so that element is read as \<open>1\<close>.
\<close>

definition big_text :: string where
  "big_text = ''<dict><key>n</key><real>1e21</real></dict>''"

definition big_domains_text :: string where
  "big_domains_text =
     ''<dict><key>n</key><integer>1e+21</integer><key>associated-domains</key><array>applinks:example.com</array></dict>''"

definition one_domains_text :: string where
  "one_domains_text =
     ''<dict><key>n</key><integer>1</integer><key>associated-domains</key><array>applinks:example.com</array></dict>''"

definition lossy_externals :: "example_world externals" where
  "lossy_externals =
     (example_externals []
        [([(''n'', PInteger 1000000000000000000000), (ASSOCIATED_DOMAINS, example_domains)],
          big_domains_text),
         ([(''n'', PInteger 1), (ASSOCIATED_DOMAINS, example_domains)], one_domains_text),
         ([(ASSOCIATED_DOMAINS, example_domains)], domains_text)])
     \<lparr>plist_parse := (\<lambda>c.
        case map_of
           [(big_text, [(''n'', PInteger 1000000000000000000000)]),
            (big_domains_text, [(''n'', PInteger 1), (ASSOCIATED_DOMAINS, example_domains)]),
            (one_domains_text, [(''n'', PInteger 1), (ASSOCIATED_DOMAINS, example_domains)]),
            (domains_text, [(ASSOCIATED_DOMAINS, example_domains)])] c
        of None \<Rightarrow> Inl (PlistError ''malformed document'') | Some d \<Rightarrow> Inr d)\<rparr>"

text \<open>
  The state of the module after a call with \<open>other_context\<close>, from the freshly loaded
  module in \<open>initial_world\<close>.
\<close>

definition called_before :: "example_world state" where
  "called_before =
     snd (generateEntitlements (example_externals [] example_table) other_context
            example_preferences (module_loaded initial_world))"

section \<open>Properties of the pure part\<close>

lemma set_first_occurrences: "set (first_occurrences xs) = set xs"
  by (induction xs rule: first_occurrences.induct) auto

lemma distinct_first_occurrences: "distinct (first_occurrences xs)"
  by (induction xs rule: first_occurrences.induct) (auto simp: set_first_occurrences)

lemma first_occurrences_filter:
  "first_occurrences (filter P xs) = filter P (first_occurrences xs)"
proof (induction xs rule: first_occurrences.induct)
  case 1
  show ?case by simp
next
  case (2 x xs)
  let ?ne = "\<lambda>y. y \<noteq> x"
  have IH: "first_occurrences (filter P (filter ?ne xs)) = filter P (first_occurrences (filter ?ne xs))"
    by (rule "2.IH")
  show ?case
  proof (cases "P x")
    case True
    have "filter ?ne (filter P xs) = filter P (filter ?ne xs)"
      by (induction xs) auto
    then have "first_occurrences (filter ?ne (filter P xs)) = filter P (first_occurrences (filter ?ne xs))"
      using IH by (simp only:)
    with True show ?thesis
      by (simp del: filter_filter)
  next
    case False
    have "filter P xs = filter P (filter ?ne xs)"
      using False by (induction xs) auto
    then have "first_occurrences (filter P xs) = filter P (first_occurrences (filter ?ne xs))"
      using IH by (simp only:)
    with False show ?thesis
      by (simp del: filter_filter)
  qed
qed

lemma remdups_snoc: "remdups (ys @ [x]) = remdups (filter (\<lambda>y. y \<noteq> x) ys) @ [x]"
  by (induction ys) auto

lemma first_occurrences_remdups: "first_occurrences xs = rev (remdups (rev xs))"
proof (induction xs rule: first_occurrences.induct)
  case 1
  show ?case by simp
next
  case (2 x xs)
  then show ?case
    by (simp add: remdups_snoc rev_filter)
qed

lemma indexOf_ge: "- 1 \<le> indexOf xs x"
  by (induction xs) (auto simp: Let_def)

lemma indexOf_absent: "indexOf xs x = - 1 \<longleftrightarrow> x \<notin> set xs"
proof (induction xs)
  case Nil
  show ?case by simp
next
  case (Cons y ys)
  have "indexOf ys x + 1 \<noteq> - 1"
    using indexOf_ge [of ys x] by arith
  with Cons show ?case
    by (auto simp: Let_def)
qed

lemma forEach_host_acc:
  "forEach_host hs acc =
     acc @ first_occurrences (filter (\<lambda>l. l \<notin> set acc) (map domainsListEntryForHost hs))"
proof (induction hs arbitrary: acc)
  case Nil
  show ?case by simp
next
  case (Cons h hs)
  let ?l = "domainsListEntryForHost h"
  show ?case
  proof (cases "?l \<in> set acc")
    case True
    then show ?thesis
      by (simp add: Cons.IH indexOf_absent Let_def)
  next
    case False
    have "filter (\<lambda>l. l \<noteq> ?l \<and> l \<notin> set acc) (map domainsListEntryForHost hs)
        = filter (\<lambda>l. l \<notin> set acc \<and> l \<noteq> ?l) (map domainsListEntryForHost hs)"
      by (rule filter_cong) auto
    with False show ?thesis
      by (simp add: Cons.IH indexOf_absent Let_def)
  qed
qed

lemma map_of_set_property: "map_of (set_property k v kvs) = (map_of kvs)(k \<mapsto> v)"
  by (induction kvs) (auto simp: fun_eq_iff)

lemma keys_set_property: "fst ` set (set_property k v kvs) = insert k (fst ` set kvs)"
  by (simp add: dom_map_of_conv_image_fst [symmetric] map_of_set_property)

lemma others_set_property:
  "filter (\<lambda>kv. fst kv \<noteq> k) (set_property k v kvs) = filter (\<lambda>kv. fst kv \<noteq> k) kvs"
  by (induction kvs) auto

lemma set_property_idem: "set_property k v (set_property k v' kvs) = set_property k v kvs"
  by (induction kvs) auto

text \<open>
  Claim C1. For every host list, the list that \<open>generateAssociatedDomainsContent\<close> computes,
  and that \<open>injectPreferences\<close> assigns under the key
  \<open>com.apple.developer.associated-domains\<close>, is the sequence of the entries
  \<open>applinks:<name>\<close> of the hosts, each kept at its first occurrence, in the order of the
  input.
\<close>

theorem associated_domains_first_occurrences:
  "generateAssociatedDomainsContent P = spec_domains (hosts P)
   \<and> map_of (injectPreferences D P) ASSOCIATED_DOMAINS
       = Some (PArray (map PString (spec_domains (hosts P))))"
proof -
  have "domainsListEntryForHost = (\<lambda>h. ''applinks:'' @ name h)"
    by (simp add: fun_eq_iff domainsListEntryForHost_def)
  then have gen: "generateAssociatedDomainsContent P = spec_domains (hosts P)"
    by (simp add: generateAssociatedDomainsContent_def spec_domains_def forEach_host_acc)
  then show ?thesis
    by (simp add: injectPreferences_def map_of_set_property)
qed

section \<open>Properties of the stateful part\<close>

subsection \<open>Path lookups\<close>

lemma pathToDebug_memo:
  "var_debugEntitlementsFilePath s = Some p \<Longrightarrow> pathToDebugEntitlementsFile E s = (Inr p, s)"
  by (simp add: pathToDebugEntitlementsFile_def)

lemma pathToRelease_memo:
  "var_releaseEntitlementsFilePath s = Some p \<Longrightarrow> pathToReleaseEntitlementsFile E s = (Inr p, s)"
  by (simp add: pathToReleaseEntitlementsFile_def)

lemma getProjectName_memo:
  "var_projectName s = Some n \<Longrightarrow> getProjectName E s = (Inr n, s)"
  by (simp add: getProjectName_def)

lemma pathToDebug_Inl:
  "pathToDebugEntitlementsFile E s = (Inl e, s') \<Longrightarrow> s' = s"
  by (auto simp: pathToDebugEntitlementsFile_def getProjectName_def Let_def
      split: option.splits sum.splits prod.splits)

lemma pathToRelease_Inl:
  "pathToReleaseEntitlementsFile E s = (Inl e, s') \<Longrightarrow> s' = s"
  by (auto simp: pathToReleaseEntitlementsFile_def getProjectName_def Let_def
      split: option.splits sum.splits prod.splits)

lemma pathToDebug_Inr:
  assumes "pathToDebugEntitlementsFile E s = (Inr p, s')"
  shows "var_debugEntitlementsFilePath s' = Some p"
    and "world s' = world s"
    and "var_context s' = var_context s"
    and "var_releaseEntitlementsFilePath s' = var_releaseEntitlementsFilePath s"
  using assms
  by (auto simp: pathToDebugEntitlementsFile_def getProjectName_def Let_def
      split: option.splits sum.splits prod.splits)

lemma pathToRelease_Inr:
  assumes "pathToReleaseEntitlementsFile E s = (Inr p, s')"
  shows "var_releaseEntitlementsFilePath s' = Some p"
    and "world s' = world s"
    and "var_context s' = var_context s"
    and "var_debugEntitlementsFilePath s' = var_debugEntitlementsFilePath s"
  using assms
  by (auto simp: pathToReleaseEntitlementsFile_def getProjectName_def Let_def
      split: option.splits sum.splits prod.splits)

lemma getDebug_read_document:
  "getDebugEntitlementsFileContent E s =
     (case pathToDebugEntitlementsFile E s of
        (Inl e, s1) \<Rightarrow> (Inl e, s1)
      | (Inr p, s1) \<Rightarrow> (read_document E p (world s1), s1))"
  by (simp add: getDebugEntitlementsFileContent_def read_document_def
      split: prod.splits sum.splits)

lemma getRelease_read_document:
  "getReleaseEntitlementsFileContent E s =
     (case pathToReleaseEntitlementsFile E s of
        (Inl e, s1) \<Rightarrow> (Inl e, s1)
      | (Inr p, s1) \<Rightarrow> (read_document E p (world s1), s1))"
  by (simp add: getReleaseEntitlementsFileContent_def read_document_def
      split: prod.splits sum.splits)

lemma save_write_files:
  assumes "var_debugEntitlementsFilePath s = Some pd"
      and "var_releaseEntitlementsFilePath s = Some pr"
      and "plist_build E d1 = Inr t1" and "plist_build E d2 = Inr t2"
  shows "saveContentToEntitlementsFile E d1 d2 s =
           (outcome (fst (write_files E pd t1 pr t2 (world s))),
            s\<lparr>world := snd (write_files E pd t1 pr t2 (world s))\<rparr>)"
  using assms
  by (auto simp: saveContentToEntitlementsFile_def write_files_def outcome_def
      pathToDebug_memo pathToRelease_memo split: prod.splits option.splits)

lemma save_build_error1:
  "plist_build E d1 = Inl e \<Longrightarrow> saveContentToEntitlementsFile E d1 d2 s = (Inl e, s)"
  by (simp add: saveContentToEntitlementsFile_def)

lemma save_build_error2:
  "plist_build E d1 = Inr t1 \<Longrightarrow> plist_build E d2 = Inl e \<Longrightarrow>
   saveContentToEntitlementsFile E d1 d2 s = (Inl e, s)"
  by (simp add: saveContentToEntitlementsFile_def)

text \<open>\<open>generateEntitlements\<close> when the two paths resolve.\<close>

lemma generate_resolved:
  assumes d: "pathToDebugEntitlementsFile E (s\<lparr>var_context := Some ctx\<rparr>) = (Inr pd, s1)"
      and r: "pathToReleaseEntitlementsFile E s1 = (Inr pr, s2)"
  shows "fst (generateEntitlements E ctx P s) = outcome (fst (run_on E P pd pr (world s)))"
    and "world (snd (generateEntitlements E ctx P s)) = snd (run_on E P pd pr (world s))"
    and "fst (generateEntitlements E ctx P s) = Inr () \<Longrightarrow>
           snd (generateEntitlements E ctx P s) = s2\<lparr>world := snd (run_on E P pd pr (world s))\<rparr>"
proof -
  have w1: "world s1 = world s" using pathToDebug_Inr(2) [OF d] by simp
  have w2: "world s2 = world s" using pathToRelease_Inr(2) [OF r] w1 by simp
  have vd: "var_debugEntitlementsFilePath s2 = Some pd"
    using pathToRelease_Inr(4) [OF r] pathToDebug_Inr(1) [OF d] by simp
  have vr: "var_releaseEntitlementsFilePath s2 = Some pr"
    using pathToRelease_Inr(1) [OF r] .
  note defs = generateEntitlements_def getDebug_read_document getRelease_read_document
    run_on_def Let_def d r w1 w2 outcome_def
  show "fst (generateEntitlements E ctx P s) = outcome (fst (run_on E P pd pr (world s)))"
    by (simp add: defs save_build_error1 save_build_error2 save_write_files [OF vd vr]
        split: sum.splits)
  show "world (snd (generateEntitlements E ctx P s)) = snd (run_on E P pd pr (world s))"
    by (simp add: defs save_build_error1 save_build_error2 save_write_files [OF vd vr]
        split: sum.splits)
  show "snd (generateEntitlements E ctx P s) = s2\<lparr>world := snd (run_on E P pd pr (world s))\<rparr>"
    if "fst (generateEntitlements E ctx P s) = Inr ()"
    using that
    by (simp add: defs save_build_error1 save_build_error2 save_write_files [OF vd vr]
        split: sum.splits)
qed


lemma generate_unfold:
  "generateEntitlements E ctx P s =
     (case pathToDebugEntitlementsFile E (s\<lparr>var_context := Some ctx\<rparr>) of
        (Inl e, s1) \<Rightarrow> (Inl e, s1)
      | (Inr pd, s1) \<Rightarrow>
     (case read_document E pd (world s1) of
        Inl e \<Rightarrow> (Inl e, s1)
      | Inr d1 \<Rightarrow>
     (case pathToReleaseEntitlementsFile E s1 of
        (Inl e, s2) \<Rightarrow> (Inl e, s2)
      | (Inr pr, s2) \<Rightarrow>
     (case read_document E pr (world s2) of
        Inl e \<Rightarrow> (Inl e, s2)
      | Inr d2 \<Rightarrow>
          saveContentToEntitlementsFile E (injectPreferences d1 P) (injectPreferences d2 P) s2))))"
  by (simp add: generateEntitlements_def getDebug_read_document getRelease_read_document Let_def
      split: prod.splits sum.splits)

lemma set_context_same: "var_context s = Some c \<Longrightarrow> s\<lparr>var_context := Some c\<rparr> = s"
  by (cases s) simp

lemma set_world_same: "world s' = w \<Longrightarrow> s'\<lparr>world := w\<rparr> = s'"
  by (cases s') simp

lemma save_state:
  assumes "var_debugEntitlementsFilePath s = Some pd"
      and "var_releaseEntitlementsFilePath s = Some pr"
      and "saveContentToEntitlementsFile E d1 d2 s = (r, s')"
  shows "s' = s\<lparr>world := world s'\<rparr>"
  using assms
  by (auto simp: saveContentToEntitlementsFile_def pathToDebug_memo pathToRelease_memo
      split: prod.splits option.splits sum.splits)

lemma generate_rerun:
  assumes run: "generateEntitlements E ctx P s = (r, s')"
      and same: "world s' = world s"
  shows "generateEntitlements E ctx P s' = (r, s')"
proof -
  let ?s0 = "s\<lparr>var_context := Some ctx\<rparr>"
  obtain rd s1 where d: "pathToDebugEntitlementsFile E ?s0 = (rd, s1)"
    by (cases "pathToDebugEntitlementsFile E ?s0")
  show ?thesis
  proof (cases rd)
    case (Inl e)
    with d have "s1 = ?s0" by (simp add: pathToDebug_Inl)
    with d Inl run have "r = Inl e" "s' = ?s0"
      by (simp_all add: generate_unfold)
    with d Inl \<open>s1 = ?s0\<close> show ?thesis
      by (simp add: generate_unfold)
  next
    case (Inr pd)
    with d have d': "pathToDebugEntitlementsFile E ?s0 = (Inr pd, s1)" by simp
    have c1: "var_context s1 = Some ctx" using pathToDebug_Inr(3) [OF d'] by simp
    have vd1: "var_debugEntitlementsFilePath s1 = Some pd" using pathToDebug_Inr(1) [OF d'] .
    have w1: "world s1 = world s" using pathToDebug_Inr(2) [OF d'] by simp
    have again1: "pathToDebugEntitlementsFile E (s1\<lparr>var_context := Some ctx\<rparr>) = (Inr pd, s1)"
      by (simp add: set_context_same [OF c1] pathToDebug_memo [OF vd1])
    show ?thesis
    proof (cases "read_document E pd (world s1)")
      case (Inl e)
      with d' run have "r = Inl e" "s' = s1"
        by (simp_all add: generate_unfold)
      with Inl again1 show ?thesis
        by (simp add: generate_unfold)
    next
      case d1: (Inr d1)
      obtain rr s2 where r: "pathToReleaseEntitlementsFile E s1 = (rr, s2)"
        by (cases "pathToReleaseEntitlementsFile E s1")
      show ?thesis
      proof (cases rr)
        case (Inl e)
        with r have "s2 = s1" by (simp add: pathToRelease_Inl)
        with d' d1 r Inl run have "r = Inl e" "s' = s1"
          by (simp_all add: generate_unfold)
        with d1 again1 r Inl \<open>s2 = s1\<close> show ?thesis
          by (simp add: generate_unfold)
      next
        case (Inr pr)
        with r have r': "pathToReleaseEntitlementsFile E s1 = (Inr pr, s2)" by simp
        have c2: "var_context s2 = Some ctx" using pathToRelease_Inr(3) [OF r'] c1 by simp
        have vd2: "var_debugEntitlementsFilePath s2 = Some pd"
          using pathToRelease_Inr(4) [OF r'] vd1 by simp
        have vr2: "var_releaseEntitlementsFilePath s2 = Some pr"
          using pathToRelease_Inr(1) [OF r'] .
        have w2: "world s2 = world s1" using pathToRelease_Inr(2) [OF r'] .
        have again2: "pathToDebugEntitlementsFile E (s2\<lparr>var_context := Some ctx\<rparr>) = (Inr pd, s2)"
          "pathToReleaseEntitlementsFile E s2 = (Inr pr, s2)"
          by (simp_all add: set_context_same [OF c2] pathToDebug_memo [OF vd2]
              pathToRelease_memo [OF vr2])
        show ?thesis
        proof (cases "read_document E pr (world s2)")
          case (Inl e)
          with d' d1 r' run have "r = Inl e" "s' = s2"
            by (simp_all add: generate_unfold)
          with Inl d1 again2 w2 show ?thesis
            by (simp add: generate_unfold)
        next
          case d2: (Inr d2)
          from d' d1 r' d2 run
          have sv: "saveContentToEntitlementsFile E (injectPreferences d1 P)
                      (injectPreferences d2 P) s2 = (r, s')"
            by (simp add: generate_unfold)
          have "s' = s2\<lparr>world := world s'\<rparr>"
            by (rule save_state [OF vd2 vr2 sv])
          with same w1 w2 have "s' = s2"
            by (simp add: set_world_same)
          with sv d1 d2 again2 w2 show ?thesis
            by (simp add: generate_unfold)
        qed
      qed
    qed
  qed
qed

subsection \<open>Consequences of the assumptions on the file system\<close>

lemma fs_stores_write_same:
  "fs_stores E \<Longrightarrow> fs_writeFileSync E p c w = (None, w') \<Longrightarrow> file_content E w' p = Some c"
  unfolding fs_stores_def by blast

lemma fs_stores_write_other:
  "fs_stores E \<Longrightarrow> fs_writeFileSync E p c w = (None, w') \<Longrightarrow> q \<noteq> p \<Longrightarrow>
   file_content E w' q = file_content E w q"
  unfolding fs_stores_def by blast

lemma fs_stores_mkpath:
  "fs_stores E \<Longrightarrow> mkpath_sync E d w = (None, w') \<Longrightarrow> file_content E w' q = file_content E w q"
  unfolding fs_stores_def by blast

lemma write_files_None:
  assumes "write_files E pd td pr tr w = (None, w')"
  obtains w1 w2 w3 where
    "mkpath_sync E (path_dirname E pd) w = (None, w1)"
    "mkpath_sync E (path_dirname E pr) w1 = (None, w2)"
    "fs_writeFileSync E pd td w2 = (None, w3)"
    "fs_writeFileSync E pr tr w3 = (None, w')"
  using assms
  by (auto simp: write_files_def split: prod.splits option.splits)

lemma write_files_contents:
  assumes st: "fs_stores E" and wf: "write_files E pd td pr tr w = (None, w')"
  shows "file_content E w' pr = Some tr"
    and "file_content E w' pd = Some (if pd = pr then tr else td)"
    and "q \<noteq> pd \<Longrightarrow> q \<noteq> pr \<Longrightarrow> file_content E w' q = file_content E w q"
proof -
  from wf obtain w1 w2 w3 where
    m1: "mkpath_sync E (path_dirname E pd) w = (None, w1)" and
    m2: "mkpath_sync E (path_dirname E pr) w1 = (None, w2)" and
    x1: "fs_writeFileSync E pd td w2 = (None, w3)" and
    x2: "fs_writeFileSync E pr tr w3 = (None, w')"
    by (rule write_files_None)
  show "file_content E w' pr = Some tr"
    by (rule fs_stores_write_same [OF st x2])
  show "file_content E w' pd = Some (if pd = pr then tr else td)"
  proof (cases "pd = pr")
    case True
    then show ?thesis using fs_stores_write_same [OF st x2] by simp
  next
    case False
    then have "file_content E w' pd = file_content E w3 pd"
      by (rule fs_stores_write_other [OF st x2])
    with False show ?thesis using fs_stores_write_same [OF st x1] by simp
  qed
  show "file_content E w' q = file_content E w q" if "q \<noteq> pd" "q \<noteq> pr"
    using that fs_stores_write_other [OF st x2, of q] fs_stores_write_other [OF st x1, of q]
      fs_stores_mkpath [OF st m2, of q] fs_stores_mkpath [OF st m1, of q]
    by simp
qed

lemma write_files_reliable: "fs_reliable E \<Longrightarrow> fst (write_files E pd td pr tr w) = None"
proof -
  assume rel: "fs_reliable E"
  have m: "\<And>d w. \<exists>w'. mkpath_sync E d w = (None, w')"
    using rel unfolding fs_reliable_def by (metis prod.collapse)
  have x: "\<And>p c w. \<exists>w'. fs_writeFileSync E p c w = (None, w')"
    using rel unfolding fs_reliable_def by (metis prod.collapse)
  obtain w1 where 1: "mkpath_sync E (path_dirname E pd) w = (None, w1)" using m by blast
  obtain w2 where 2: "mkpath_sync E (path_dirname E pr) w1 = (None, w2)" using m by blast
  obtain w3 where 3: "fs_writeFileSync E pd td w2 = (None, w3)" using x by blast
  obtain w4 where 4: "fs_writeFileSync E pr tr w3 = (None, w4)" using x by blast
  show ?thesis by (simp add: write_files_def 1 2 3 4)
qed

lemma read_document_content:
  "read_document E p w =
     (case file_content E w p of None \<Rightarrow> Inr defaultEntitlementsFile | Some c \<Rightarrow> plist_parse E c)"
  by (simp add: read_document_def file_content_def split: sum.splits)

lemma run_on_error_world:
  assumes "fs_reliable E" and "fst (run_on E P pd pr w) = Some e"
  shows "snd (run_on E P pd pr w) = w"
  using assms write_files_reliable [of E]
  by (auto simp: run_on_def split: sum.splits)

lemma generate_error_world:
  assumes rel: "fs_reliable E" and err: "fst (generateEntitlements E ctx P s) = Inl e"
  shows "world (snd (generateEntitlements E ctx P s)) = world s"
proof -
  let ?s0 = "s\<lparr>var_context := Some ctx\<rparr>"
  obtain rd s1 where d: "pathToDebugEntitlementsFile E ?s0 = (rd, s1)"
    by (cases "pathToDebugEntitlementsFile E ?s0")
  show ?thesis
  proof (cases rd)
    case (Inl e')
    with d have "s1 = ?s0" by (simp add: pathToDebug_Inl)
    with d Inl show ?thesis by (simp add: generate_unfold)
  next
    case (Inr pd)
    with d have d': "pathToDebugEntitlementsFile E ?s0 = (Inr pd, s1)" by simp
    have w1: "world s1 = world s" using pathToDebug_Inr(2) [OF d'] by simp
    obtain rr s2 where r: "pathToReleaseEntitlementsFile E s1 = (rr, s2)"
      by (cases "pathToReleaseEntitlementsFile E s1")
    show ?thesis
    proof (cases rr)
      case (Inl e')
      with r have "s2 = s1" by (simp add: pathToRelease_Inl)
      with d' r Inl w1 show ?thesis
        by (simp add: generate_unfold split: sum.splits)
    next
      case (Inr pr)
      with r have r': "pathToReleaseEntitlementsFile E s1 = (Inr pr, s2)" by simp
      from err have "fst (run_on E P pd pr (world s)) = Some e"
        by (simp add: generate_resolved(1) [OF d' r'] outcome_def split: option.splits)
      then have "snd (run_on E P pd pr (world s)) = world s"
        by (rule run_on_error_world [OF rel])
      then show ?thesis
        by (simp add: generate_resolved(2) [OF d' r'])
    qed
  qed
qed

section \<open>The example instance meets the assumptions\<close>

lemma example_file_content:
  "file_content (example_externals denied table) w p = map_of w p"
  by (simp add: file_content_def example_externals_def split: option.splits)

lemma example_fs_stores: "fs_stores (example_externals denied table)"
  unfolding fs_stores_def example_file_content
  by (auto simp: example_externals_def map_of_set_property)

lemma example_fs_reliable: "fs_reliable (example_externals [] table)"
  by (simp add: fs_reliable_def example_externals_def)

lemma example_plist_roundtrip:
  assumes "distinct (map snd table)"
  shows "plist_roundtrip (example_externals denied table)"
proof -
  have "map_of (map (\<lambda>(d, t). (t, d)) table) c = Some d" if "map_of table d = Some c" for d c
  proof -
    from that have "(d, c) \<in> set table" by (rule map_of_SomeD)
    then have "(c, d) \<in> set (map (\<lambda>(d, t). (t, d)) table)" by force
    moreover have "distinct (map fst (map (\<lambda>(d, t). (t, d)) table))"
      using assms by (simp add: comp_def case_prod_unfold)
    ultimately show ?thesis by (rule map_of_is_SomeI [rotated])
  qed
  then show ?thesis
    by (auto simp: plist_roundtrip_def example_externals_def split: option.splits)
qed

lemma example_table_roundtrip: "plist_roundtrip (example_externals denied example_table)"
  by (rule example_plist_roundtrip)
    (simp add: example_table_def other_text_def domains_text_def other_domains_text_def)

lemmas module_defs =
  generateEntitlements_def getDebugEntitlementsFileContent_def
  getReleaseEntitlementsFileContent_def pathToDebugEntitlementsFile_def
  pathToReleaseEntitlementsFile_def getProjectRoot_def getProjectName_def
  saveContentToEntitlementsFile_def injectPreferences_def generateAssociatedDomainsContent_def
  domainsListEntryForHost_def defaultEntitlementsFile_def ASSOCIATED_DOMAINS_def Let_def

lemmas example_defs =
  example_externals_def example_table_def example_domains_def example_preferences_def
  example_context_def other_context_def debug_path_def release_path_def module_loaded_def

section \<open>The merged document\<close>

text \<open>
  Claim C3. For every starting document \<open>D\<close> and every host list, the document that
  \<open>injectPreferences\<close> returns has, under every key other than
  \<open>com.apple.developer.associated-domains\<close>, the value \<open>D\<close> has (or none where \<open>D\<close> has
  none), its entries under the other keys are those of \<open>D\<close> in the same order, and under
  that key it has exactly the newly computed list, whatever \<open>D\<close> held there.
\<close>

theorem inject_frame:
  "(\<forall>k. k \<noteq> ASSOCIATED_DOMAINS \<longrightarrow> map_of (injectPreferences D P) k = map_of D k)
   \<and> filter (\<lambda>kv. fst kv \<noteq> ASSOCIATED_DOMAINS) (injectPreferences D P)
       = filter (\<lambda>kv. fst kv \<noteq> ASSOCIATED_DOMAINS) D
   \<and> map_of (injectPreferences D P) ASSOCIATED_DOMAINS
       = Some (PArray (map PString (generateAssociatedDomainsContent P)))"
  by (simp add: injectPreferences_def map_of_set_property others_set_property)

theorem inject_frame_witness:
  "''other-key'' \<noteq> ASSOCIATED_DOMAINS
   \<and> map_of (injectPreferences
        [(''other-key'', PString ''value''), (ASSOCIATED_DOMAINS, PArray [PString ''applinks:old.com''])]
        \<lparr>hosts = [\<lparr>name = ''x.com''\<rparr>]\<rparr>) ''other-key'' = Some (PString ''value'')
   \<and> map_of (injectPreferences
        [(''other-key'', PString ''value''), (ASSOCIATED_DOMAINS, PArray [PString ''applinks:old.com''])]
        \<lparr>hosts = [\<lparr>name = ''x.com''\<rparr>]\<rparr>) ASSOCIATED_DOMAINS
       = Some (PArray [PString ''applinks:x.com''])"
  using inject_frame [of "[(''other-key'', PString ''value''),
      (ASSOCIATED_DOMAINS, PArray [PString ''applinks:old.com''])]" "\<lparr>hosts = [\<lparr>name = ''x.com''\<rparr>]\<rparr>"]
  by (simp add: generateAssociatedDomainsContent_def domainsListEntryForHost_def
      ASSOCIATED_DOMAINS_def)

text \<open>
  Claim C5. For the empty host list the merged document has the key
  \<open>com.apple.developer.associated-domains\<close>, and its value is the empty array.
\<close>

theorem empty_hosts_key_present:
  "map_of (injectPreferences D \<lparr>hosts = []\<rparr>) ASSOCIATED_DOMAINS = Some (PArray [])
   \<and> ASSOCIATED_DOMAINS \<in> fst ` set (injectPreferences D \<lparr>hosts = []\<rparr>)"
  by (simp add: injectPreferences_def map_of_set_property keys_set_property
      generateAssociatedDomainsContent_def)


lemmas example_defs2 = example_defs initial_world_def debug_resolved_def both_resolved_def
  other_text_def domains_text_def other_domains_text_def

section \<open>Reading the files\<close>

text \<open>
  Claim C2, as amended. For each target file: when \<open>fs.readFileSync\<close> throws, the reading
  function returns the empty document; when the file is read and \<open>plist.parse\<close> throws on
  its content, the reading function throws that error, \<open>generateEntitlements\<close> throws it
  too, and the world is left as it was: nothing is written and the malformed file stays.
  As stated, the claim has the reading function fall back to the empty document on
  malformed content and the run overwrite the file; the example after the theorem
  refutes that.
\<close>

theorem malformed_file_error_propagates:
  assumes d: "pathToDebugEntitlementsFile E (s\<lparr>var_context := Some ctx\<rparr>) = (Inr pd, s1)"
  shows "(fs_readFileSync E pd (world s) = Inl err \<longrightarrow>
            getDebugEntitlementsFileContent E (s\<lparr>var_context := Some ctx\<rparr>)
              = (Inr defaultEntitlementsFile, s1))
       \<and> (fs_readFileSync E pd (world s) = Inr c \<and> plist_parse E c = Inl e \<longrightarrow>
            getDebugEntitlementsFileContent E (s\<lparr>var_context := Some ctx\<rparr>) = (Inl e, s1)
            \<and> generateEntitlements E ctx P s = (Inl e, s1) \<and> world s1 = world s)
       \<and> (pathToReleaseEntitlementsFile E s1 = (Inr pr, s2)
            \<and> fs_readFileSync E pr (world s) = Inl err \<longrightarrow>
            getReleaseEntitlementsFileContent E s1 = (Inr defaultEntitlementsFile, s2))
       \<and> (pathToReleaseEntitlementsFile E s1 = (Inr pr, s2)
            \<and> getDebugEntitlementsFileContent E (s\<lparr>var_context := Some ctx\<rparr>) = (Inr d1, s1)
            \<and> fs_readFileSync E pr (world s) = Inr c \<and> plist_parse E c = Inl e \<longrightarrow>
            getReleaseEntitlementsFileContent E s1 = (Inl e, s2)
            \<and> generateEntitlements E ctx P s = (Inl e, s2) \<and> world s2 = world s)"
proof -
  have w1: "world s1 = world s"
    using pathToDebug_Inr(2) [OF d] by simp
  have a: "fs_readFileSync E pd (world s) = Inl err \<Longrightarrow>
      getDebugEntitlementsFileContent E (s\<lparr>var_context := Some ctx\<rparr>)
        = (Inr defaultEntitlementsFile, s1)"
    by (simp add: getDebugEntitlementsFileContent_def d w1)
  have b: "getDebugEntitlementsFileContent E (s\<lparr>var_context := Some ctx\<rparr>) = (Inl e, s1)
      \<and> generateEntitlements E ctx P s = (Inl e, s1) \<and> world s1 = world s"
    if "fs_readFileSync E pd (world s) = Inr c" "plist_parse E c = Inl e"
    using that by (simp add: generateEntitlements_def getDebugEntitlementsFileContent_def d w1)
  have c: "getReleaseEntitlementsFileContent E s1 = (Inr defaultEntitlementsFile, s2)"
    if "pathToReleaseEntitlementsFile E s1 = (Inr pr, s2)" "fs_readFileSync E pr (world s) = Inl err"
    using that pathToRelease_Inr(2) [OF that(1)]
    by (simp add: getReleaseEntitlementsFileContent_def w1)
  have d: "getReleaseEntitlementsFileContent E s1 = (Inl e, s2)
      \<and> generateEntitlements E ctx P s = (Inl e, s2) \<and> world s2 = world s"
    if "pathToReleaseEntitlementsFile E s1 = (Inr pr, s2)"
      "getDebugEntitlementsFileContent E (s\<lparr>var_context := Some ctx\<rparr>) = (Inr d1, s1)"
      "fs_readFileSync E pr (world s) = Inr c" "plist_parse E c = Inl e"
    using that pathToRelease_Inr(2) [OF that(1)]
    by (simp add: generateEntitlements_def getReleaseEntitlementsFileContent_def w1)
  from a b c d show ?thesis by blast
qed

theorem malformed_file_error_propagates_witness:
  "pathToDebugEntitlementsFile (example_externals [] example_table)
     ((module_loaded ((debug_path, ''<foo/>'') # initial_world))\<lparr>var_context := Some example_context\<rparr>)
     = (Inr debug_path, debug_resolved ((debug_path, ''<foo/>'') # initial_world))
   \<and> fs_readFileSync (example_externals [] example_table) debug_path
        ((debug_path, ''<foo/>'') # initial_world) = Inr ''<foo/>''
   \<and> plist_parse (example_externals [] example_table) ''<foo/>''
        = Inl (PlistError ''malformed document'')
   \<and> generateEntitlements (example_externals [] example_table) example_context example_preferences
        (module_loaded ((debug_path, ''<foo/>'') # initial_world))
     = (Inl (PlistError ''malformed document''),
        debug_resolved ((debug_path, ''<foo/>'') # initial_world))"
proof -
  let ?E = "example_externals [] example_table"
  let ?w = "(debug_path, ''<foo/>'') # initial_world"
  have p: "pathToDebugEntitlementsFile ?E ((module_loaded ?w)\<lparr>var_context := Some example_context\<rparr>)
      = (Inr debug_path, debug_resolved ?w)"
    by (simp add: module_defs example_defs2)
  have r: "fs_readFileSync ?E debug_path (world (module_loaded ?w)) = Inr ''<foo/>''"
    by (simp add: example_defs2)
  have m: "plist_parse ?E ''<foo/>'' = Inl (PlistError ''malformed document'')"
    by (simp add: example_defs2)
  show ?thesis
    using malformed_file_error_propagates [OF p, where c = "''<foo/>''"
        and e = "PlistError ''malformed document''" and P = example_preferences] p r m
    by (simp add: module_loaded_def)
qed

text \<open>
  The debug file is present and holds \<open><foo/>\<close>, which the property list library of
  the example rejects (as \<open>plist.parse\<close> rejects a document whose first element is not
  \<open><plist>\<close>). The reading function does not return the empty document: it throws the
  parse error, the run throws it, and the file still holds \<open><foo/>\<close> afterwards.
\<close>

theorem malformed_file_counterexample:
  "fs_readFileSync (example_externals [] example_table) debug_path
        ((debug_path, ''<foo/>'') # initial_world) = Inr ''<foo/>''
   \<and> plist_parse (example_externals [] example_table) ''<foo/>''
        = Inl (PlistError ''malformed document'')
   \<and> fst (getDebugEntitlementsFileContent (example_externals [] example_table)
        ((module_loaded ((debug_path, ''<foo/>'') # initial_world))\<lparr>var_context := Some example_context\<rparr>))
       = Inl (PlistError ''malformed document'')
   \<and> fst (getDebugEntitlementsFileContent (example_externals [] example_table)
        ((module_loaded ((debug_path, ''<foo/>'') # initial_world))\<lparr>var_context := Some example_context\<rparr>))
       \<noteq> Inr defaultEntitlementsFile
   \<and> fst (generateEntitlements (example_externals [] example_table) example_context
        example_preferences (module_loaded ((debug_path, ''<foo/>'') # initial_world)))
       = Inl (PlistError ''malformed document'')
   \<and> file_content (example_externals [] example_table)
        (world (snd (generateEntitlements (example_externals [] example_table) example_context
           example_preferences (module_loaded ((debug_path, ''<foo/>'') # initial_world)))))
        debug_path = Some ''<foo/>''"
  by (simp add: module_defs example_defs2 file_content_def)

section \<open>Errors of the file system\<close>

text \<open>
  Claim C7. An exception thrown by either \<open>mkpath.sync\<close> call or either
  \<open>fs.writeFileSync\<close> call is the exception \<open>generateEntitlements\<close> throws, and the state
  it ends in is the state at the failing call with the world that call left: nothing is
  caught, retried or done afterwards.
\<close>

theorem fs_errors_propagate:
  assumes rd: "getDebugEntitlementsFileContent E (s\<lparr>var_context := Some ctx\<rparr>) = (Inr d1, s1)"
      and rr: "getReleaseEntitlementsFileContent E s1 = (Inr d2, s2)"
      and b1: "plist_build E (injectPreferences d1 P) = Inr t1"
      and b2: "plist_build E (injectPreferences d2 P) = Inr t2"
      and pd: "var_debugEntitlementsFilePath s2 = Some pd"
      and pr: "var_releaseEntitlementsFilePath s2 = Some pr"
  shows "(mkpath_sync E (path_dirname E pd) (world s2) = (Some e, w1) \<longrightarrow>
            generateEntitlements E ctx P s = (Inl e, s2\<lparr>world := w1\<rparr>))
       \<and> (mkpath_sync E (path_dirname E pd) (world s2) = (None, w1)
            \<and> mkpath_sync E (path_dirname E pr) w1 = (Some e, w2) \<longrightarrow>
            generateEntitlements E ctx P s = (Inl e, s2\<lparr>world := w2\<rparr>))
       \<and> (mkpath_sync E (path_dirname E pd) (world s2) = (None, w1)
            \<and> mkpath_sync E (path_dirname E pr) w1 = (None, w2)
            \<and> fs_writeFileSync E pd t1 w2 = (Some e, w3) \<longrightarrow>
            generateEntitlements E ctx P s = (Inl e, s2\<lparr>world := w3\<rparr>))
       \<and> (mkpath_sync E (path_dirname E pd) (world s2) = (None, w1)
            \<and> mkpath_sync E (path_dirname E pr) w1 = (None, w2)
            \<and> fs_writeFileSync E pd t1 w2 = (None, w3)
            \<and> fs_writeFileSync E pr t2 w3 = (Some e, w4) \<longrightarrow>
            generateEntitlements E ctx P s = (Inl e, s2\<lparr>world := w4\<rparr>))"
  by (simp add: generateEntitlements_def rd rr saveContentToEntitlementsFile_def b1 b2
      pathToDebug_memo [OF pd] pathToRelease_memo [OF pr])


theorem fs_errors_propagate_witness:
  "fs_writeFileSync (example_externals [release_path] example_table) release_path domains_text
     (initial_world @ [(debug_path, domains_text)])
     = (Some (FsError ''EACCES''), initial_world @ [(debug_path, domains_text)])
   \<and> generateEntitlements (example_externals [release_path] example_table) example_context
        example_preferences (module_loaded initial_world)
     = (Inl (FsError ''EACCES''),
        both_resolved example_context (initial_world @ [(debug_path, domains_text)]))"
proof -
  let ?E = "example_externals [release_path] example_table"
  let ?w = "initial_world @ [(debug_path, domains_text)]"
  have rd: "getDebugEntitlementsFileContent ?E
      ((module_loaded initial_world)\<lparr>var_context := Some example_context\<rparr>)
      = (Inr [], debug_resolved initial_world)"
    by (simp add: module_defs example_defs2)
  have rr: "getReleaseEntitlementsFileContent ?E (debug_resolved initial_world)
      = (Inr [], both_resolved example_context initial_world)"
    by (simp add: module_defs example_defs2)
  have b: "plist_build ?E (injectPreferences [] example_preferences) = Inr domains_text"
    by (simp add: module_defs example_defs2)
  have pd: "var_debugEntitlementsFilePath (both_resolved example_context initial_world) = Some debug_path"
    and pr: "var_releaseEntitlementsFilePath (both_resolved example_context initial_world) = Some release_path"
    by (simp_all add: both_resolved_def)
  have m1: "mkpath_sync ?E (path_dirname ?E debug_path)
      (world (both_resolved example_context initial_world)) = (None, initial_world)"
    by (simp add: example_defs2)
  have m2: "mkpath_sync ?E (path_dirname ?E release_path) initial_world = (None, initial_world)"
    by (simp add: example_defs2)
  have x1: "fs_writeFileSync ?E debug_path domains_text initial_world = (None, ?w)"
    by (simp add: example_defs2)
  have x2: "fs_writeFileSync ?E release_path domains_text ?w = (Some (FsError ''EACCES''), ?w)"
    by (simp add: example_defs2)
  show ?thesis
    using fs_errors_propagate [OF rd rr b b pd pr, where ?w1.0 = initial_world
        and ?w2.0 = initial_world and ?w3.0 = ?w and ?w4.0 = ?w and e = "FsError ''EACCES''"]
      m1 m2 x1 x2
    by (simp add: both_resolved_def)
qed


section \<open>Runs that return\<close>

lemma generate_ok_resolves:
  assumes "fst (generateEntitlements E ctx P s) = Inr ()"
  obtains pd s1 pr s2 where
    "pathToDebugEntitlementsFile E (s\<lparr>var_context := Some ctx\<rparr>) = (Inr pd, s1)"
    "pathToReleaseEntitlementsFile E s1 = (Inr pr, s2)"
  using assms
  by (auto simp: generate_unfold split: prod.splits sum.splits)

lemma run_on_None:
  assumes "run_on E P pd pr w = (None, w')"
  obtains d1 d2 t1 t2 where
    "read_document E pd w = Inr d1" "read_document E pr w = Inr d2"
    "plist_build E (injectPreferences d1 P) = Inr t1"
    "plist_build E (injectPreferences d2 P) = Inr t2"
    "write_files E pd t1 pr t2 w = (None, w')"
  using assms
  by (auto simp: run_on_def split: sum.splits)

lemma outcome_Inr: "outcome r = Inr () \<longleftrightarrow> r = None"
  by (simp add: outcome_def split: option.splits)

lemma outcome_Inl: "outcome r = Inl e \<longleftrightarrow> r = Some e"
  by (simp add: outcome_def split: option.splits)

lemma injectPreferences_idem:
  "injectPreferences (injectPreferences d P) P = injectPreferences d P"
  by (simp add: injectPreferences_def set_property_idem)

lemma injectPreferences_hosts:
  "hosts P = hosts P' \<Longrightarrow> injectPreferences d P = injectPreferences d P'"
  by (simp add: injectPreferences_def generateAssociatedDomainsContent_def)

text \<open>A run on a world that a run on the same paths has just written.\<close>

lemma run_on_again:
  assumes st: "fs_stores E"
      and run: "run_on E P pd pr w = (None, w1)"
      and pbd: "\<And>t. file_content E w1 pd = Some t \<Longrightarrow> parses_back E t"
      and pbr: "\<And>t. file_content E w1 pr = Some t \<Longrightarrow> parses_back E t"
      and ok2: "fst (run_on E P pd pr w1) = None"
  shows "file_content E (snd (run_on E P pd pr w1)) q = file_content E w1 q"
proof -
  from run obtain d1 d2 t1 t2 where
    b1: "plist_build E (injectPreferences d1 P) = Inr t1" and
    b2: "plist_build E (injectPreferences d2 P) = Inr t2" and
    wf: "write_files E pd t1 pr t2 w = (None, w1)"
    by (rule run_on_None)
  let ?tx = "if pd = pr then t2 else t1"
  let ?dx = "if pd = pr then d2 else d1"
  have cr: "file_content E w1 pr = Some t2" and cd: "file_content E w1 pd = Some ?tx"
    using write_files_contents [OF st wf] by simp_all
  have bx: "plist_build E (injectPreferences ?dx P) = Inr ?tx"
    using b1 b2 by simp
  have p2: "plist_parse E t2 = Inr (injectPreferences d2 P)"
    using pbr [OF cr] b2 unfolding parses_back_def by blast
  have px: "plist_parse E ?tx = Inr (injectPreferences ?dx P)"
    using pbd [OF cd] bx unfolding parses_back_def by blast
  have rd: "read_document E pd w1 = Inr (injectPreferences ?dx P)"
    using cd px by (simp add: read_document_content)
  have rr: "read_document E pr w1 = Inr (injectPreferences d2 P)"
    using cr p2 by (simp add: read_document_content)
  have again: "run_on E P pd pr w1 = write_files E pd ?tx pr t2 w1"
    unfolding run_on_def rd rr by (simp only: sum.case injectPreferences_idem bx b2)
  obtain w2 where wf2: "write_files E pd ?tx pr t2 w1 = (None, w2)"
    using ok2 unfolding again by (cases "write_files E pd ?tx pr t2 w1") simp
  have "file_content E w2 q = file_content E w1 q"
  proof (cases "q = pr")
    case True
    then show ?thesis using write_files_contents(1) [OF st wf2] cr by simp
  next
    case False
    show ?thesis
    proof (cases "q = pd")
      case True
      with False show ?thesis using write_files_contents(2) [OF st wf2] cd by auto
    next
      case False
      with \<open>q \<noteq> pr\<close> show ?thesis by (simp add: write_files_contents(3) [OF st wf2])
    qed
  qed
  then show ?thesis by (simp add: again wf2)
qed

lemma roundtrip_parses_back: "plist_roundtrip E \<Longrightarrow> parses_back E t"
  by (simp add: plist_roundtrip_def parses_back_def)

subsection \<open>Idempotence\<close>

text \<open>
  Claim C4, as amended. On a file system that stores what is written, when a first and
  a second run with the same context and preferences both return, and the library
  parses the text the first run left in each of the two target files back to the
  document it built that text from, then after the second run every file, the two
  target files among them, reads as it did after the first. And when the first run
  leaves the world as it was (it throws before it writes, on a malformed file say), the
  second run ends in the same way and the same state.
  As stated, for every initial pair of file contents and with nothing said of the
  library, the claim fails: the example after the theorem has a library that does not
  parse a number back, and the debug file differs after the second run.
\<close>

theorem generate_idempotent_parsed_back:
  assumes st: "fs_stores E"
      and run1: "generateEntitlements E ctx P s = (r1, s1)"
  shows "(world s1 = world s \<longrightarrow> generateEntitlements E ctx P s1 = (r1, s1))
       \<and> (r1 = Inr () \<and> fst (generateEntitlements E ctx P s1) = Inr ()
            \<and> var_debugEntitlementsFilePath s1 = Some pd
            \<and> file_content E (world s1) pd = Some td \<and> parses_back E td
            \<and> var_releaseEntitlementsFilePath s1 = Some pr
            \<and> file_content E (world s1) pr = Some tr \<and> parses_back E tr \<longrightarrow>
          (\<forall>q. file_content E (world (snd (generateEntitlements E ctx P s1))) q
                 = file_content E (world s1) q))"
proof -
  have a: "generateEntitlements E ctx P s1 = (r1, s1)" if "world s1 = world s"
    using run1 that by (rule generate_rerun)
  have b: "file_content E (world (snd (generateEntitlements E ctx P s1))) q
      = file_content E (world s1) q"
    if r1: "r1 = Inr ()" and ok2: "fst (generateEntitlements E ctx P s1) = Inr ()"
      and vd: "var_debugEntitlementsFilePath s1 = Some pd"
      and cd: "file_content E (world s1) pd = Some td" and pbd: "parses_back E td"
      and vr: "var_releaseEntitlementsFilePath s1 = Some pr"
      and cr: "file_content E (world s1) pr = Some tr" and pbr: "parses_back E tr"
    for q
  proof -
    from run1 r1 have ok: "fst (generateEntitlements E ctx P s) = Inr ()" by simp
    then obtain pd' sa pr' sb where
      d: "pathToDebugEntitlementsFile E (s\<lparr>var_context := Some ctx\<rparr>) = (Inr pd', sa)" and
      r: "pathToReleaseEntitlementsFile E sa = (Inr pr', sb)"
      by (rule generate_ok_resolves)
    let ?w1 = "snd (run_on E P pd' pr' (world s))"
    have s1: "s1 = sb\<lparr>world := ?w1\<rparr>"
      using generate_resolved(3) [OF d r ok] run1 by simp
    have "var_debugEntitlementsFilePath s1 = Some pd'"
      using pathToRelease_Inr(4) [OF r] pathToDebug_Inr(1) [OF d] by (simp add: s1)
    with vd have pd': "pd' = pd" by simp
    have "var_releaseEntitlementsFilePath s1 = Some pr'"
      using pathToRelease_Inr(1) [OF r] by (simp add: s1)
    with vr have pr': "pr' = pr" by simp
    have w1: "world s1 = snd (run_on E P pd pr (world s))"
      by (simp add: s1 pd' pr')
    have "fst (run_on E P pd pr (world s)) = None"
      using generate_resolved(1) [OF d r, of P] ok
      by (auto simp: outcome_def pd' pr' split: option.splits)
    then have run: "run_on E P pd pr (world s) = (None, world s1)"
      by (simp add: prod_eq_iff w1)
    have d2: "pathToDebugEntitlementsFile E (s1\<lparr>var_context := Some ctx\<rparr>)
        = (Inr pd, s1\<lparr>var_context := Some ctx\<rparr>)"
      by (rule pathToDebug_memo) (simp add: vd)
    have r2: "pathToReleaseEntitlementsFile E (s1\<lparr>var_context := Some ctx\<rparr>)
        = (Inr pr, s1\<lparr>var_context := Some ctx\<rparr>)"
      by (rule pathToRelease_memo) (simp add: vr)
    have none2: "fst (run_on E P pd pr (world s1)) = None"
      using generate_resolved(1) [OF d2 r2, of P] ok2
      by (auto simp: outcome_def split: option.splits)
    have "file_content E (snd (run_on E P pd pr (world s1))) q = file_content E (world s1) q"
      by (rule run_on_again [OF st run _ _ none2]) (use cd pbd cr pbr in simp_all)
    then show ?thesis
      using generate_resolved(2) [OF d2 r2, of P] by simp
  qed
  from a b show ?thesis by blast
qed

theorem generate_idempotent_parsed_back_witness:
  "generateEntitlements (example_externals [] example_table) example_context example_preferences
     (module_loaded ((debug_path, other_text) # initial_world))
     = (Inr (), both_resolved example_context
          ((debug_path, other_domains_text) # initial_world @ [(release_path, domains_text)]))
   \<and> fst (generateEntitlements (example_externals [] example_table) example_context
        example_preferences
        (both_resolved example_context
          ((debug_path, other_domains_text) # initial_world @ [(release_path, domains_text)])))
       = Inr ()
   \<and> parses_back (example_externals [] example_table) other_domains_text
   \<and> parses_back (example_externals [] example_table) domains_text
   \<and> file_content (example_externals [] example_table)
        (world (snd (generateEntitlements (example_externals [] example_table) example_context
           example_preferences
           (both_resolved example_context
             ((debug_path, other_domains_text) # initial_world @ [(release_path, domains_text)])))))
        debug_path = Some other_domains_text
   \<and> file_content (example_externals [] example_table)
        (world (snd (generateEntitlements (example_externals [] example_table) example_context
           example_preferences
           (both_resolved example_context
             ((debug_path, other_domains_text) # initial_world @ [(release_path, domains_text)])))))
        release_path = Some domains_text"
proof -
  let ?E = "example_externals [] example_table"
  let ?w1 = "(debug_path, other_domains_text) # initial_world @ [(release_path, domains_text)]"
  let ?s1 = "both_resolved example_context ?w1"
  have run1: "generateEntitlements ?E example_context example_preferences
      (module_loaded ((debug_path, other_text) # initial_world)) = (Inr (), ?s1)"
    by (simp add: module_defs example_defs2)
  have ok2: "fst (generateEntitlements ?E example_context example_preferences ?s1) = Inr ()"
    by (simp add: module_defs example_defs2)
  have vd: "var_debugEntitlementsFilePath ?s1 = Some debug_path"
    and vr: "var_releaseEntitlementsFilePath ?s1 = Some release_path"
    by (simp_all add: both_resolved_def)
  have cd: "file_content ?E (world ?s1) debug_path = Some other_domains_text"
    and cr: "file_content ?E (world ?s1) release_path = Some domains_text"
    by (simp_all add: example_defs2 file_content_def)
  have pbd: "parses_back ?E other_domains_text" and pbr: "parses_back ?E domains_text"
    by (rule roundtrip_parses_back [OF example_table_roundtrip])+
  show ?thesis
    using generate_idempotent_parsed_back [OF example_fs_stores run1,
        where pd = debug_path and pr = release_path and td = other_domains_text
          and tr = domains_text]
      run1 ok2 vd vr cd cr pbd pbr
    by simp
qed

text \<open>
  The debug file holds a document with the number \<open>10^21\<close>. Both runs return, on a
  file system that stores what is written and does not throw. The first run leaves
  the integer element \<open>1e+21\<close> in the debug file, which the library does not parse back
  to the number it was built from; the second run reads it as \<open>1\<close> and leaves a
  different text in the debug file.
\<close>

theorem generate_idempotent_counterexample:
  "fs_stores lossy_externals \<and> fs_reliable lossy_externals
   \<and> fst (generateEntitlements lossy_externals example_context example_preferences
        (module_loaded ((debug_path, big_text) # initial_world))) = Inr ()
   \<and> fst (generateEntitlements lossy_externals example_context example_preferences
        (snd (generateEntitlements lossy_externals example_context example_preferences
           (module_loaded ((debug_path, big_text) # initial_world))))) = Inr ()
   \<and> file_content lossy_externals
        (world (snd (generateEntitlements lossy_externals example_context example_preferences
           (module_loaded ((debug_path, big_text) # initial_world)))))
        debug_path = Some big_domains_text
   \<and> file_content lossy_externals
        (world (snd (generateEntitlements lossy_externals example_context example_preferences
           (snd (generateEntitlements lossy_externals example_context example_preferences
              (module_loaded ((debug_path, big_text) # initial_world)))))))
        debug_path = Some one_domains_text
   \<and> big_domains_text \<noteq> one_domains_text
   \<and> \<not> parses_back lossy_externals big_domains_text"
proof -
  have st: "fs_stores lossy_externals"
    using example_fs_stores [of "[]"]
    by (simp add: fs_stores_def file_content_def lossy_externals_def example_externals_def)
  have rel: "fs_reliable lossy_externals"
    by (simp add: fs_reliable_def lossy_externals_def example_externals_def)
  have npb: "\<not> parses_back lossy_externals big_domains_text"
  proof
    assume "parses_back lossy_externals big_domains_text"
    moreover have "plist_build lossy_externals
        [(''n'', PInteger 1000000000000000000000), (ASSOCIATED_DOMAINS, example_domains)]
        = Inr big_domains_text"
      by (simp add: lossy_externals_def example_externals_def)
    ultimately have "plist_parse lossy_externals big_domains_text
        = Inr [(''n'', PInteger 1000000000000000000000), (ASSOCIATED_DOMAINS, example_domains)]"
      unfolding parses_back_def by blast
    then show False
      by (simp add: lossy_externals_def example_externals_def big_domains_text_def big_text_def)
  qed
  have runs: "fst (generateEntitlements lossy_externals example_context example_preferences
        (module_loaded ((debug_path, big_text) # initial_world))) = Inr ()
   \<and> fst (generateEntitlements lossy_externals example_context example_preferences
        (snd (generateEntitlements lossy_externals example_context example_preferences
           (module_loaded ((debug_path, big_text) # initial_world))))) = Inr ()
   \<and> file_content lossy_externals
        (world (snd (generateEntitlements lossy_externals example_context example_preferences
           (module_loaded ((debug_path, big_text) # initial_world)))))
        debug_path = Some big_domains_text
   \<and> file_content lossy_externals
        (world (snd (generateEntitlements lossy_externals example_context example_preferences
           (snd (generateEntitlements lossy_externals example_context example_preferences
              (module_loaded ((debug_path, big_text) # initial_world)))))))
        debug_path = Some one_domains_text
   \<and> big_domains_text \<noteq> one_domains_text"
    by (simp add: module_defs example_defs2 file_content_def lossy_externals_def
        big_text_def big_domains_text_def one_domains_text_def)
  from st rel npb runs show ?thesis by blast
qed

subsection \<open>Missing files\<close>

text \<open>
  Claim C6. When neither target file can be read before the run (neither exists), the
  run returns and each of the two files then holds the text built from the document
  whose only key is \<open>com.apple.developer.associated-domains\<close>, provided the file system
  stores what is written, its directory and write calls do not throw, and the library
  builds that document.
\<close>

theorem missing_files_created:
  assumes st: "fs_stores E" and rel: "fs_reliable E"
      and d: "pathToDebugEntitlementsFile E (s\<lparr>var_context := Some ctx\<rparr>) = (Inr pd, s1)"
      and r: "pathToReleaseEntitlementsFile E s1 = (Inr pr, s2)"
      and md: "fs_readFileSync E pd (world s) = Inl e1"
      and mr: "fs_readFileSync E pr (world s) = Inl e2"
      and b: "plist_build E
                [(ASSOCIATED_DOMAINS, PArray (map PString (generateAssociatedDomainsContent P)))]
              = Inr t"
  shows "fst (generateEntitlements E ctx P s) = Inr ()
       \<and> file_content E (world (snd (generateEntitlements E ctx P s))) pd = Some t
       \<and> file_content E (world (snd (generateEntitlements E ctx P s))) pr = Some t"
proof -
  have doc: "injectPreferences defaultEntitlementsFile P
      = [(ASSOCIATED_DOMAINS, PArray (map PString (generateAssociatedDomainsContent P)))]"
    by (simp add: injectPreferences_def defaultEntitlementsFile_def)
  have run: "run_on E P pd pr (world s) = write_files E pd t pr t (world s)"
    by (simp add: run_on_def read_document_def md mr doc b)
  obtain w' where wf: "write_files E pd t pr t (world s) = (None, w')"
    using write_files_reliable [OF rel, of pd t pr t "world s"]
    by (cases "write_files E pd t pr t (world s)") simp
  have "fst (generateEntitlements E ctx P s) = Inr ()"
    by (simp add: generate_resolved(1) [OF d r] run wf outcome_def)
  moreover have "world (snd (generateEntitlements E ctx P s)) = w'"
    by (simp add: generate_resolved(2) [OF d r] run wf)
  ultimately show ?thesis
    using write_files_contents(1,2) [OF st wf] by simp
qed

theorem missing_files_created_witness:
  "fs_readFileSync (example_externals [] example_table) debug_path initial_world
     = Inl (FsError ''ENOENT'')
   \<and> fs_readFileSync (example_externals [] example_table) release_path initial_world
     = Inl (FsError ''ENOENT'')
   \<and> fst (generateEntitlements (example_externals [] example_table) example_context
        example_preferences (module_loaded initial_world)) = Inr ()
   \<and> file_content (example_externals [] example_table)
        (world (snd (generateEntitlements (example_externals [] example_table) example_context
           example_preferences (module_loaded initial_world)))) debug_path = Some domains_text
   \<and> file_content (example_externals [] example_table)
        (world (snd (generateEntitlements (example_externals [] example_table) example_context
           example_preferences (module_loaded initial_world)))) release_path = Some domains_text"
proof -
  let ?E = "example_externals [] example_table"
  have d: "pathToDebugEntitlementsFile ?E
      ((module_loaded initial_world)\<lparr>var_context := Some example_context\<rparr>)
      = (Inr debug_path, debug_resolved initial_world)"
    by (simp add: module_defs example_defs2)
  have r: "pathToReleaseEntitlementsFile ?E (debug_resolved initial_world)
      = (Inr release_path, both_resolved example_context initial_world)"
    by (simp add: module_defs example_defs2)
  have md: "fs_readFileSync ?E debug_path (world (module_loaded initial_world))
      = Inl (FsError ''ENOENT'')"
    and mr: "fs_readFileSync ?E release_path (world (module_loaded initial_world))
      = Inl (FsError ''ENOENT'')"
    by (simp_all add: example_defs2)
  have b: "plist_build ?E
      [(ASSOCIATED_DOMAINS, PArray (map PString (generateAssociatedDomainsContent example_preferences)))]
      = Inr domains_text"
    by (simp add: module_defs example_defs2)
  show ?thesis
    using missing_files_created [OF example_fs_stores example_fs_reliable d r md mr b] md mr
    by (simp add: module_loaded_def)
qed

subsection \<open>The debug and the release file\<close>

text \<open>
  Claim C8. The debug and the release document go through the same transformation: when
  the two files read the same before a run that returns, they hold the same text after
  it; and the value \<open>injectPreferences\<close> stores under
  \<open>com.apple.developer.associated-domains\<close> does not depend on the document it is stored
  in.
\<close>

theorem debug_release_same_transformation:
  assumes st: "fs_stores E"
      and d: "pathToDebugEntitlementsFile E (s\<lparr>var_context := Some ctx\<rparr>) = (Inr pd, s1)"
      and r: "pathToReleaseEntitlementsFile E s1 = (Inr pr, s2)"
      and eq: "file_content E (world s) pd = file_content E (world s) pr"
      and ok: "fst (generateEntitlements E ctx P s) = Inr ()"
  shows "(\<exists>t. file_content E (world (snd (generateEntitlements E ctx P s))) pd = Some t
            \<and> file_content E (world (snd (generateEntitlements E ctx P s))) pr = Some t)
       \<and> map_of (injectPreferences D1 P) ASSOCIATED_DOMAINS
           = map_of (injectPreferences D2 P) ASSOCIATED_DOMAINS"
proof -
  let ?w' = "snd (run_on E P pd pr (world s))"
  have "fst (run_on E P pd pr (world s)) = None"
    using generate_resolved(1) [OF d r, of P] ok
    by (auto simp: outcome_def split: option.splits)
  then have "run_on E P pd pr (world s) = (None, ?w')"
    by (simp add: prod_eq_iff)
  then obtain d1 d2 t1 t2 where
    rd: "read_document E pd (world s) = Inr d1" and rr: "read_document E pr (world s) = Inr d2" and
    b1: "plist_build E (injectPreferences d1 P) = Inr t1" and
    b2: "plist_build E (injectPreferences d2 P) = Inr t2" and
    wf: "write_files E pd t1 pr t2 (world s) = (None, ?w')"
    by (rule run_on_None)
  have "d1 = d2" using rd rr eq by (simp add: read_document_content)
  with b1 b2 have "t1 = t2" by simp
  with write_files_contents(1,2) [OF st wf]
  have "file_content E ?w' pd = Some t2" "file_content E ?w' pr = Some t2" by simp_all
  then show ?thesis
    by (simp add: generate_resolved(2) [OF d r] injectPreferences_def map_of_set_property)
qed

theorem debug_release_same_transformation_witness:
  "file_content (example_externals [] example_table)
        ((debug_path, other_text) # (release_path, other_text) # initial_world) debug_path
     = file_content (example_externals [] example_table)
        ((debug_path, other_text) # (release_path, other_text) # initial_world) release_path
   \<and> fst (generateEntitlements (example_externals [] example_table) example_context
        example_preferences
        (module_loaded ((debug_path, other_text) # (release_path, other_text) # initial_world)))
       = Inr ()
   \<and> (\<exists>t. file_content (example_externals [] example_table)
          (world (snd (generateEntitlements (example_externals [] example_table) example_context
             example_preferences
             (module_loaded ((debug_path, other_text) # (release_path, other_text) # initial_world)))))
          debug_path = Some t
        \<and> file_content (example_externals [] example_table)
          (world (snd (generateEntitlements (example_externals [] example_table) example_context
             example_preferences
             (module_loaded ((debug_path, other_text) # (release_path, other_text) # initial_world)))))
          release_path = Some t)"
proof -
  let ?E = "example_externals [] example_table"
  let ?w = "(debug_path, other_text) # (release_path, other_text) # initial_world"
  have d: "pathToDebugEntitlementsFile ?E ((module_loaded ?w)\<lparr>var_context := Some example_context\<rparr>)
      = (Inr debug_path, debug_resolved ?w)"
    by (simp add: module_defs example_defs2)
  have r: "pathToReleaseEntitlementsFile ?E (debug_resolved ?w)
      = (Inr release_path, both_resolved example_context ?w)"
    by (simp add: module_defs example_defs2)
  have eq: "file_content ?E (world (module_loaded ?w)) debug_path
      = file_content ?E (world (module_loaded ?w)) release_path"
    by (simp add: example_defs2 file_content_def)
  have ok: "fst (generateEntitlements ?E example_context example_preferences (module_loaded ?w))
      = Inr ()"
    by (simp add: module_defs example_defs2)
  show ?thesis
    using debug_release_same_transformation [OF example_fs_stores d r eq ok] eq ok
    by (simp add: module_loaded_def)
qed

section \<open>Two runs\<close>

lemma run_on_deterministic:
  assumes st: "fs_stores E" and h: "hosts P = hosts P'"
      and eqd: "file_content E wA pd = file_content E wB pd"
      and eqr: "file_content E wA pr = file_content E wB pr"
      and runA: "run_on E P pd pr wA = (None, wA')"
      and runB: "run_on E P' pd pr wB = (None, wB')"
  shows "\<exists>td tr. file_content E wA' pd = Some td \<and> file_content E wB' pd = Some td
       \<and> file_content E wA' pr = Some tr \<and> file_content E wB' pr = Some tr"
proof -
  from runA obtain d1 d2 t1 t2 where
    rdA: "read_document E pd wA = Inr d1" and rrA: "read_document E pr wA = Inr d2" and
    b1: "plist_build E (injectPreferences d1 P) = Inr t1" and
    b2: "plist_build E (injectPreferences d2 P) = Inr t2" and
    wfA: "write_files E pd t1 pr t2 wA = (None, wA')"
    by (rule run_on_None)
  from runB obtain d1' d2' t1' t2' where
    rdB: "read_document E pd wB = Inr d1'" and rrB: "read_document E pr wB = Inr d2'" and
    b1': "plist_build E (injectPreferences d1' P') = Inr t1'" and
    b2': "plist_build E (injectPreferences d2' P') = Inr t2'" and
    wfB: "write_files E pd t1' pr t2' wB = (None, wB')"
    by (rule run_on_None)
  have "d1' = d1" "d2' = d2"
    using rdA rrA rdB rrB by (simp_all add: read_document_content eqd eqr)
  moreover have "\<And>d. injectPreferences d P' = injectPreferences d P"
    by (rule injectPreferences_hosts) (simp add: h)
  ultimately have "t1' = t1" "t2' = t2"
    using b1 b2 b1' b2' by simp_all
  with write_files_contents(1,2) [OF st wfA] write_files_contents(1,2) [OF st wfB]
  show ?thesis by simp
qed

text \<open>
  Claim C10, as amended. Two runs with the same context and the same host list, in which
  the module looks up the same two target paths (as it does when each run is the first
  call after the module is loaded and the project has the same name), in worlds where
  each target file reads the same before (other files may differ), and which both
  return, leave the same text in each target file. The file system is assumed to store
  what is written.
  As stated, with the same context, host list and contents only, the claim fails: the
  paths are kept in the module's variables, and the example after the theorem has a
  module that was called before with another context and writes other files.
\<close>

theorem generate_deterministic_same_paths:
  assumes st: "fs_stores E" and h: "hosts P = hosts P'"
      and dA: "pathToDebugEntitlementsFile E (sA\<lparr>var_context := Some ctx\<rparr>) = (Inr pd, sA1)"
      and rA: "pathToReleaseEntitlementsFile E sA1 = (Inr pr, sA2)"
      and dB: "pathToDebugEntitlementsFile E (sB\<lparr>var_context := Some ctx\<rparr>) = (Inr pd, sB1)"
      and rB: "pathToReleaseEntitlementsFile E sB1 = (Inr pr, sB2)"
      and eqd: "file_content E (world sA) pd = file_content E (world sB) pd"
      and eqr: "file_content E (world sA) pr = file_content E (world sB) pr"
      and okA: "fst (generateEntitlements E ctx P sA) = Inr ()"
      and okB: "fst (generateEntitlements E ctx P' sB) = Inr ()"
  shows "\<exists>td tr.
           file_content E (world (snd (generateEntitlements E ctx P sA))) pd = Some td
         \<and> file_content E (world (snd (generateEntitlements E ctx P' sB))) pd = Some td
         \<and> file_content E (world (snd (generateEntitlements E ctx P sA))) pr = Some tr
         \<and> file_content E (world (snd (generateEntitlements E ctx P' sB))) pr = Some tr"
proof -
  have "fst (run_on E P pd pr (world sA)) = None"
    using generate_resolved(1) [OF dA rA, of P] okA
    by (auto simp: outcome_def split: option.splits)
  then have runA: "run_on E P pd pr (world sA)
      = (None, world (snd (generateEntitlements E ctx P sA)))"
    by (simp add: prod_eq_iff generate_resolved(2) [OF dA rA])
  have "fst (run_on E P' pd pr (world sB)) = None"
    using generate_resolved(1) [OF dB rB, of P'] okB
    by (auto simp: outcome_def split: option.splits)
  then have runB: "run_on E P' pd pr (world sB)
      = (None, world (snd (generateEntitlements E ctx P' sB)))"
    by (simp add: prod_eq_iff generate_resolved(2) [OF dB rB])
  show ?thesis
    by (rule run_on_deterministic [OF st h eqd eqr runA runB])
qed

theorem generate_deterministic_same_paths_witness:
  "file_content (example_externals [] example_table)
        ((debug_path, other_text) # initial_world) release_path
     = file_content (example_externals [] example_table)
        ((debug_path, other_text) # (''/app/notes.txt'', ''unrelated'') # initial_world) release_path
   \<and> fst (generateEntitlements (example_externals [] example_table) example_context
        example_preferences (module_loaded ((debug_path, other_text) # initial_world))) = Inr ()
   \<and> fst (generateEntitlements (example_externals [] example_table) example_context
        example_preferences
        (module_loaded ((debug_path, other_text) # (''/app/notes.txt'', ''unrelated'') # initial_world)))
       = Inr ()
   \<and> (\<exists>td tr.
        file_content (example_externals [] example_table)
          (world (snd (generateEntitlements (example_externals [] example_table) example_context
             example_preferences (module_loaded ((debug_path, other_text) # initial_world)))))
          debug_path = Some td
      \<and> file_content (example_externals [] example_table)
          (world (snd (generateEntitlements (example_externals [] example_table) example_context
             example_preferences
             (module_loaded ((debug_path, other_text) # (''/app/notes.txt'', ''unrelated'') # initial_world)))))
          debug_path = Some td
      \<and> file_content (example_externals [] example_table)
          (world (snd (generateEntitlements (example_externals [] example_table) example_context
             example_preferences (module_loaded ((debug_path, other_text) # initial_world)))))
          release_path = Some tr
      \<and> file_content (example_externals [] example_table)
          (world (snd (generateEntitlements (example_externals [] example_table) example_context
             example_preferences
             (module_loaded ((debug_path, other_text) # (''/app/notes.txt'', ''unrelated'') # initial_world)))))
          release_path = Some tr)"
proof -
  let ?E = "example_externals [] example_table"
  let ?wA = "(debug_path, other_text) # initial_world"
  let ?wB = "(debug_path, other_text) # (''/app/notes.txt'', ''unrelated'') # initial_world"
  have dA: "pathToDebugEntitlementsFile ?E ((module_loaded ?wA)\<lparr>var_context := Some example_context\<rparr>)
      = (Inr debug_path, debug_resolved ?wA)"
    by (simp add: module_defs example_defs2)
  have rA: "pathToReleaseEntitlementsFile ?E (debug_resolved ?wA)
      = (Inr release_path, both_resolved example_context ?wA)"
    by (simp add: module_defs example_defs2)
  have dB: "pathToDebugEntitlementsFile ?E ((module_loaded ?wB)\<lparr>var_context := Some example_context\<rparr>)
      = (Inr debug_path, debug_resolved ?wB)"
    by (simp add: module_defs example_defs2)
  have rB: "pathToReleaseEntitlementsFile ?E (debug_resolved ?wB)
      = (Inr release_path, both_resolved example_context ?wB)"
    by (simp add: module_defs example_defs2)
  have eqd: "file_content ?E (world (module_loaded ?wA)) debug_path
      = file_content ?E (world (module_loaded ?wB)) debug_path"
    and eqr: "file_content ?E (world (module_loaded ?wA)) release_path
      = file_content ?E (world (module_loaded ?wB)) release_path"
    by (simp_all add: example_defs2 file_content_def)
  have okA: "fst (generateEntitlements ?E example_context example_preferences (module_loaded ?wA))
      = Inr ()"
    and okB: "fst (generateEntitlements ?E example_context example_preferences (module_loaded ?wB))
      = Inr ()"
    by (simp_all add: module_defs example_defs2)
  show ?thesis
    using generate_deterministic_same_paths [OF example_fs_stores refl dA rA dB rB eqd eqr okA okB]
      eqr okA okB
    by (simp add: module_loaded_def)
qed

text \<open>
  Two runs with \<open>example_context\<close> and the same host list; before either, neither target
  file of that context exists. The freshly loaded module writes the debug file of the
  context. The module that was called before with \<open>other_context\<close> returns too, and
  the debug file of the context still does not exist after it.
\<close>

theorem generate_deterministic_counterexample:
  "file_content (example_externals [] example_table) (world (module_loaded initial_world)) debug_path
     = file_content (example_externals [] example_table) (world called_before) debug_path
   \<and> file_content (example_externals [] example_table) (world (module_loaded initial_world)) release_path
     = file_content (example_externals [] example_table) (world called_before) release_path
   \<and> fst (generateEntitlements (example_externals [] example_table) example_context
        example_preferences (module_loaded initial_world)) = Inr ()
   \<and> fst (generateEntitlements (example_externals [] example_table) example_context
        example_preferences called_before) = Inr ()
   \<and> file_content (example_externals [] example_table)
        (world (snd (generateEntitlements (example_externals [] example_table) example_context
           example_preferences (module_loaded initial_world)))) debug_path = Some domains_text
   \<and> file_content (example_externals [] example_table)
        (world (snd (generateEntitlements (example_externals [] example_table) example_context
           example_preferences called_before))) debug_path = None"
  by (simp add: module_defs example_defs2 file_content_def called_before_def)

section \<open>Memoized paths\<close>

lemma generate_memo_state:
  assumes vd: "var_debugEntitlementsFilePath s = Some pd"
      and vr: "var_releaseEntitlementsFilePath s = Some pr"
  shows "\<exists>w'. snd (generateEntitlements E ctx P s) = s\<lparr>var_context := Some ctx, world := w'\<rparr>"
proof -
  let ?s0 = "s\<lparr>var_context := Some ctx\<rparr>"
  have d: "pathToDebugEntitlementsFile E ?s0 = (Inr pd, ?s0)"
    by (rule pathToDebug_memo) (simp add: vd)
  have r: "pathToReleaseEntitlementsFile E ?s0 = (Inr pr, ?s0)"
    by (rule pathToRelease_memo) (simp add: vr)
  have same: "?s0 = ?s0\<lparr>world := world s\<rparr>" by simp
  show ?thesis
  proof (cases "read_document E pd (world s)")
    case (Inl e)
    then have "snd (generateEntitlements E ctx P s) = ?s0\<lparr>world := world s\<rparr>"
      by (simp add: generate_unfold d)
    then show ?thesis by (intro exI [of _ "world s"]) simp
  next
    case d1: (Inr d1)
    show ?thesis
    proof (cases "read_document E pr (world s)")
      case (Inl e)
      then have "snd (generateEntitlements E ctx P s) = ?s0\<lparr>world := world s\<rparr>"
        by (simp add: generate_unfold d r d1)
      then show ?thesis by (intro exI [of _ "world s"]) simp
    next
      case d2: (Inr d2)
      obtain res s' where sv: "saveContentToEntitlementsFile E (injectPreferences d1 P)
          (injectPreferences d2 P) ?s0 = (res, s')"
        by (cases "saveContentToEntitlementsFile E (injectPreferences d1 P)
          (injectPreferences d2 P) ?s0")
      have "s' = ?s0\<lparr>world := world s'\<rparr>"
        by (rule save_state [OF _ _ sv]) (simp_all add: vd vr)
      moreover have "snd (generateEntitlements E ctx P s) = s'"
        by (simp add: generate_unfold d r d1 d2 sv)
      ultimately show ?thesis by (intro exI [of _ "world s'"]) simp
    qed
  qed
qed

text \<open>
  Claim C9. The project name and the two paths are kept in the module's variables. After
  a first call that returns, from the freshly loaded module and with the context
  \<open>ctx1\<close>, the variables hold the name and the paths computed from \<open>ctx1\<close>. In a later
  call with any context \<open>ctx2\<close> the lookups return these values, the variables still
  hold them when the call ends, and when that call returns it has written the two files
  under the paths of the first call and has changed no file under any other path.
\<close>

theorem paths_memoized:
  assumes st: "fs_stores E"
      and run1: "generateEntitlements E ctx1 P1 (module_loaded w) = (Inr (), s1)"
      and nm: "configXmlHelper_getProjectName E (Some ctx1) w = Inr n"
      and pd: "pd = path_join E
                 [projectRoot (opts ctx1), ''platforms'', ''ios'', n, ''Entitlements-Debug.plist'']"
      and pr: "pr = path_join E
                 [projectRoot (opts ctx1), ''platforms'', ''ios'', n, ''Entitlements-Release.plist'']"
  shows "var_projectName s1 = Some n
       \<and> var_debugEntitlementsFilePath s1 = Some pd
       \<and> var_releaseEntitlementsFilePath s1 = Some pr
       \<and> getProjectName E (s1\<lparr>var_context := Some ctx2\<rparr>)
           = (Inr n, s1\<lparr>var_context := Some ctx2\<rparr>)
       \<and> pathToDebugEntitlementsFile E (s1\<lparr>var_context := Some ctx2\<rparr>)
           = (Inr pd, s1\<lparr>var_context := Some ctx2\<rparr>)
       \<and> pathToReleaseEntitlementsFile E (s1\<lparr>var_context := Some ctx2\<rparr>)
           = (Inr pr, s1\<lparr>var_context := Some ctx2\<rparr>)
       \<and> var_projectName (snd (generateEntitlements E ctx2 P2 s1)) = Some n
       \<and> var_debugEntitlementsFilePath (snd (generateEntitlements E ctx2 P2 s1)) = Some pd
       \<and> var_releaseEntitlementsFilePath (snd (generateEntitlements E ctx2 P2 s1)) = Some pr
       \<and> (fst (generateEntitlements E ctx2 P2 s1) = Inr () \<longrightarrow>
            file_content E (world (snd (generateEntitlements E ctx2 P2 s1))) pd \<noteq> None
          \<and> file_content E (world (snd (generateEntitlements E ctx2 P2 s1))) pr \<noteq> None
          \<and> (\<forall>q. q \<noteq> pd \<and> q \<noteq> pr \<longrightarrow>
                file_content E (world (snd (generateEntitlements E ctx2 P2 s1))) q
                  = file_content E (world s1) q))"
proof -
  let ?s0 = "(module_loaded w)\<lparr>var_context := Some ctx1\<rparr>"
  let ?sa = "?s0\<lparr>var_projectName := Some n, var_debugEntitlementsFilePath := Some pd\<rparr>"
  let ?sb = "?sa\<lparr>var_releaseEntitlementsFilePath := Some pr\<rparr>"
  have d: "pathToDebugEntitlementsFile E ?s0 = (Inr pd, ?sa)"
    by (simp add: pathToDebugEntitlementsFile_def getProjectRoot_def getProjectName_def
        module_loaded_def Let_def nm pd)
  have r: "pathToReleaseEntitlementsFile E ?sa = (Inr pr, ?sb)"
    by (simp add: pathToReleaseEntitlementsFile_def getProjectRoot_def getProjectName_def
        module_loaded_def Let_def pr)
  have ok: "fst (generateEntitlements E ctx1 P1 (module_loaded w)) = Inr ()"
    by (simp add: run1)
  have s1: "s1 = ?sb\<lparr>world := world s1\<rparr>"
    using generate_resolved(3) [OF d r ok] generate_resolved(2) [OF d r, of P1] run1 by simp
  have vn: "var_projectName s1 = Some n"
    and vd: "var_debugEntitlementsFilePath s1 = Some pd"
    and vr: "var_releaseEntitlementsFilePath s1 = Some pr"
    by (subst s1, simp)+
  let ?t0 = "s1\<lparr>var_context := Some ctx2\<rparr>"
  have d2: "pathToDebugEntitlementsFile E ?t0 = (Inr pd, ?t0)"
    by (rule pathToDebug_memo) (simp add: vd)
  have r2: "pathToReleaseEntitlementsFile E ?t0 = (Inr pr, ?t0)"
    by (rule pathToRelease_memo) (simp add: vr)
  have n2: "getProjectName E ?t0 = (Inr n, ?t0)"
    by (rule getProjectName_memo) (simp add: vn)
  obtain w' where s2: "snd (generateEntitlements E ctx2 P2 s1) = s1\<lparr>var_context := Some ctx2, world := w'\<rparr>"
    using generate_memo_state [OF vd vr] by blast
  have written: "file_content E (world (snd (generateEntitlements E ctx2 P2 s1))) pd \<noteq> None
          \<and> file_content E (world (snd (generateEntitlements E ctx2 P2 s1))) pr \<noteq> None
          \<and> (\<forall>q. q \<noteq> pd \<and> q \<noteq> pr \<longrightarrow>
                file_content E (world (snd (generateEntitlements E ctx2 P2 s1))) q
                  = file_content E (world s1) q)"
    if ok2: "fst (generateEntitlements E ctx2 P2 s1) = Inr ()"
  proof -
    let ?w2 = "snd (run_on E P2 pd pr (world s1))"
    have "fst (run_on E P2 pd pr (world s1)) = None"
      using generate_resolved(1) [OF d2 r2, of P2] ok2
      by (auto simp: outcome_def split: option.splits)
    then have "run_on E P2 pd pr (world s1) = (None, ?w2)"
      by (simp add: prod_eq_iff)
    then obtain t1 t2 where wf: "write_files E pd t1 pr t2 (world s1) = (None, ?w2)"
      by (rule run_on_None)
    show ?thesis
      using write_files_contents [OF st wf]
      by (simp add: generate_resolved(2) [OF d2 r2])
  qed
  show ?thesis
    using vn vd vr n2 d2 r2 written by (simp add: s2)
qed

theorem paths_memoized_witness:
  "generateEntitlements (example_externals [] example_table) example_context example_preferences
     (module_loaded initial_world)
     = (Inr (), both_resolved example_context
          (initial_world @ [(debug_path, domains_text), (release_path, domains_text)]))
   \<and> pathToDebugEntitlementsFile (example_externals [] example_table)
        (both_resolved other_context
          (initial_world @ [(debug_path, domains_text), (release_path, domains_text)]))
     = (Inr debug_path, both_resolved other_context
          (initial_world @ [(debug_path, domains_text), (release_path, domains_text)]))
   \<and> var_debugEntitlementsFilePath
        (snd (generateEntitlements (example_externals [] example_table) other_context
           example_preferences
           (both_resolved example_context
             (initial_world @ [(debug_path, domains_text), (release_path, domains_text)]))))
     = Some debug_path
   \<and> file_content (example_externals [] example_table)
        (world (snd (generateEntitlements (example_externals [] example_table) other_context
           example_preferences
           (both_resolved example_context
             (initial_world @ [(debug_path, domains_text), (release_path, domains_text)])))))
        ''/other/platforms/ios/Other/Entitlements-Debug.plist'' = None"
proof -
  let ?E = "example_externals [] example_table"
  let ?w1 = "initial_world @ [(debug_path, domains_text), (release_path, domains_text)]"
  have run1: "generateEntitlements ?E example_context example_preferences (module_loaded initial_world)
      = (Inr (), both_resolved example_context ?w1)"
    by (simp add: module_defs example_defs2)
  have nm: "configXmlHelper_getProjectName ?E (Some example_context) initial_world = Inr ''Demo''"
    by (simp add: example_defs2)
  have pd: "debug_path = path_join ?E
      [projectRoot (opts example_context), ''platforms'', ''ios'', ''Demo'', ''Entitlements-Debug.plist'']"
    and pr: "release_path = path_join ?E
      [projectRoot (opts example_context), ''platforms'', ''ios'', ''Demo'', ''Entitlements-Release.plist'']"
    by (simp_all add: example_defs2)
  have ok2: "fst (generateEntitlements ?E other_context example_preferences
      (both_resolved example_context ?w1)) = Inr ()"
    by (simp add: module_defs example_defs2)
  have before: "file_content ?E (world (both_resolved example_context ?w1))
      ''/other/platforms/ios/Other/Entitlements-Debug.plist'' = None"
    by (simp add: example_defs2 file_content_def)
  have ne: "''/other/platforms/ios/Other/Entitlements-Debug.plist'' \<noteq> debug_path"
    "''/other/platforms/ios/Other/Entitlements-Debug.plist'' \<noteq> release_path"
    by (simp_all add: example_defs2)
  have upd: "(both_resolved example_context ?w1)\<lparr>var_context := Some other_context\<rparr>
      = both_resolved other_context ?w1"
    by (simp add: both_resolved_def)
  show ?thesis
    using paths_memoized [OF example_fs_stores run1 nm pd pr, of other_context example_preferences]
      run1 ok2 before ne
    by (simp add: upd)
qed

end
